theory Spec2Isabelle
  imports Complex_Main "HOL-Library.Sublist" "HOL-Library.Multiset"
begin

section \<open>Squad snapshot: the block of analysisEngine.ts carried by fix_analysis_block.py\<close>

text \<open>
  The patch script \<^verbatim>\<open>fix_analysis_block.py\<close> carries, as the replacement text
  \<^verbatim>\<open>new\<close>, the TypeScript block that resolves the picks of a squad:
  \<^verbatim>\<open>
  const currentSquad = userSquad.picks.map(pick => {
    const player = allPlayers.find(p => p.id === pick.element);
    if (!player) {
      console.warn(`[analysis] Player data missing for element ${pick.element}`);
    }
    return {
      ...pick,
      player,
      sellPrice: (pick.selling_price || player?.now_cost || 0) / 10,
    };
  });
  \<close>
  Prices of the data source are integers counting tenths of the currency unit
  (fixed point); \<^verbatim>\<open>sellPrice\<close> is the same amount in currency units, hence the
  division by ten. JavaScript numbers are modelled by exact rationals: rounding
  of binary floating point is outside this model.
\<close>

datatype position_class = Goalkeeper | Defender | Midfielder | Forward

record player =
  id_player :: nat \<comment> \<open>\<^verbatim>\<open>p.id\<close>\<close>
  now_cost :: int \<comment> \<open>current price, tenths of the currency unit\<close>
  element_type :: position_class
  team :: nat \<comment> \<open>club identifier\<close>

record squad_pick =
  element :: nat \<comment> \<open>player identifier\<close>
  position :: nat \<comment> \<open>squad slot, 1 to 15\<close>
  selling_price :: "int option" \<comment> \<open>override, tenths; \<open>None\<close> is \<^verbatim>\<open>undefined\<close>\<close>
  is_captain :: bool
  is_vice_captain :: bool

text \<open>The object \<^verbatim>\<open>{...pick, player, sellPrice}\<close>: the pick, its player if found, its sell price.\<close>

record resolved_pick =
  pick :: squad_pick
  player :: "player option"
  sellPrice :: rat

text \<open>
  \<^verbatim>\<open>a || b\<close> on numbers that may be missing: the left operand when it is truthy
  (present and not zero), the right operand otherwise.
\<close>

fun js_or :: "int option \<Rightarrow> int option \<Rightarrow> int option" where
  "js_or None b = b"
| "js_or (Some a) b = (if a = 0 then b else Some a)"

text \<open>\<^verbatim>\<open>x || 0\<close> at the end of the chain: a number in every case.\<close>

fun js_or_zero :: "int option \<Rightarrow> int" where
  "js_or_zero None = 0"
| "js_or_zero (Some a) = (if a = 0 then 0 else a)"

text \<open>\<^verbatim>\<open>player?.now_cost\<close>: undefined when the player is undefined, no exception.\<close>

definition opt_now_cost :: "player option \<Rightarrow> int option" where
  "opt_now_cost pl = map_option now_cost pl"

definition sell_price :: "squad_pick \<Rightarrow> player option \<Rightarrow> rat" where
  "sell_price pk pl = of_int (js_or_zero (js_or (selling_price pk) (opt_now_cost pl))) / 10"

text \<open>Decimal rendering of a number inside a template string.\<close>

function str_nat :: "nat \<Rightarrow> string" where
  "str_nat n = (if n < 10 then [char_of (48 + n)]
                else str_nat (n div 10) @ [char_of (48 + n mod 10)])"
  by pat_completeness auto
termination
  by (relation "measure (\<lambda>n. n)") auto

declare str_nat.simps [simp del]

text \<open>Reading a decimal rendering back.\<close>

definition read_nat :: "string \<Rightarrow> nat" where
  "read_nat s = foldl (\<lambda>a c. 10 * a + (of_char c - 48)) 0 s"

definition missing_warning :: "nat \<Rightarrow> string" where
  "missing_warning e = ''[analysis] Player data missing for element '' @ str_nat e"

text \<open>
  The body of the arrow function. The console is the list of warnings written so
  far, newest last; \<^verbatim>\<open>find\<close> returns the first player with the identifier.
\<close>

definition resolve_pick ::
  "player list \<Rightarrow> squad_pick \<Rightarrow> string list \<Rightarrow> resolved_pick \<times> string list" where
  "resolve_pick allPlayers pk console =
     (let pl = find (\<lambda>p. id_player p = element pk) allPlayers;
          console' = (if pl = None then console @ [missing_warning (element pk)] else console)
      in (\<lparr>pick = pk, player = pl, sellPrice = sell_price pk pl\<rparr>, console'))"

text \<open>\<^verbatim>\<open>userSquad.picks.map(...)\<close>, threading the console through the calls in order.\<close>

fun currentSquad ::
  "player list \<Rightarrow> squad_pick list \<Rightarrow> string list \<Rightarrow> resolved_pick list \<times> string list" where
  "currentSquad allPlayers [] console = ([], console)"
| "currentSquad allPlayers (pk # pks) console =
     (let (r, console') = resolve_pick allPlayers pk console;
          (rs, console'') = currentSquad allPlayers pks console'
      in (r # rs, console''))"

section \<open>Valuation and budget\<close>

text \<open>
  Modelled from the spec: the statement that computes \<^verbatim>\<open>filteredSquad\<close> is not in
  the block carried by the patch script. Section 4.2: the usable subset, "resolved
  picks whose player was found".
\<close>

definition filteredSquad :: "resolved_pick list \<Rightarrow> resolved_pick list" where
  "filteredSquad squad = filter (\<lambda>p. player p \<noteq> None) squad"

text \<open>
  Modelled from the spec: the statement that computes \<^verbatim>\<open>teamValue\<close> is not in the
  block carried by the patch script. Section 4.2: "sum of sell prices over all
  resolved picks (including unresolved ones, using their zero/override fallback)".
\<close>

definition teamValue_of :: "resolved_pick list \<Rightarrow> rat" where
  "teamValue_of squad = sum_list (map sellPrice squad)"

text \<open>
  The second block of the patch script:
  \<^verbatim>\<open>
  const benchPlayers = filteredSquad.filter(p => p.position > 11);
  const starterPlayers = filteredSquad.filter(p => p.position <= 11);

  if (filteredSquad.length === 0) {
    return { bank, teamValue, freeTransfers, nextDeadline, maxPlayerPrice: bank,
             benchUpgrades: [], starterTargets: [], riskAssessment: "insufficient-data" };
  }
  \<close>
  and the third: \<^verbatim>\<open>const maxSellValue = Math.max(...filteredSquad.map(p => p.sellPrice));\<close>
\<close>

definition benchPlayers :: "resolved_pick list \<Rightarrow> resolved_pick list" where
  "benchPlayers fs = filter (\<lambda>p. position (pick p) > 11) fs"

definition starterPlayers :: "resolved_pick list \<Rightarrow> resolved_pick list" where
  "starterPlayers fs = filter (\<lambda>p. position (pick p) \<le> 11) fs"

record 'u analysis_result =
  bank :: rat
  teamValue :: rat
  freeTransfers :: nat
  nextDeadline :: string
  maxPlayerPrice :: rat
  benchUpgrades :: "'u list"
  starterTargets :: "'u list"
  riskAssessment :: string

text \<open>
  \<^verbatim>\<open>Math.max(x, ...xs)\<close> on at least one argument. Without arguments \<^verbatim>\<open>Math.max()\<close>
  is minus infinity; the early return keeps the empty squad away from it.
\<close>

definition Math_max :: "rat \<Rightarrow> rat list \<Rightarrow> rat" where
  "Math_max x xs = foldl max x xs"

text \<open>
  Modelled from the spec: the result of the branch past the early return, which
  is not in the patch script. Section 4.2: "maxPlayerPrice = bank + max(sell price
  over filteredSquad)"; the recommendation generator (contract of section 4.3, a
  pair of lists) and the risk assessor (contract of section 4.4) are parameters.
  The case \<open>[]\<close> is the test \<^verbatim>\<open>filteredSquad.length === 0\<close> of the source.
\<close>

definition analysis ::
  "(resolved_pick list \<Rightarrow> player list \<Rightarrow> rat \<Rightarrow> nat \<Rightarrow> 'u list \<times> 'u list) \<Rightarrow>
   (resolved_pick list \<Rightarrow> string) \<Rightarrow>
   player list \<Rightarrow> rat \<Rightarrow> rat \<Rightarrow> nat \<Rightarrow> string \<Rightarrow> resolved_pick list \<Rightarrow> 'u analysis_result" where
  "analysis gen assess allPlayers b tv ft nd fs =
     (case fs of
        [] \<Rightarrow> \<lparr>bank = b, teamValue = tv, freeTransfers = ft, nextDeadline = nd,
               maxPlayerPrice = b, benchUpgrades = [], starterTargets = [],
               riskAssessment = ''insufficient-data''\<rparr>
      | p # ps \<Rightarrow>
          (let maxSellValue = Math_max (sellPrice p) (map sellPrice ps);
               mpp = b + maxSellValue;
               recs = gen fs allPlayers mpp ft
           in \<lparr>bank = b, teamValue = tv, freeTransfers = ft, nextDeadline = nd,
                maxPlayerPrice = mpp, benchUpgrades = fst recs, starterTargets = snd recs,
                riskAssessment = assess fs\<rparr>))"

text \<open>The whole request: snapshot, team value, usable subset, result; the console comes back too.\<close>

definition analyseTeam ::
  "(resolved_pick list \<Rightarrow> player list \<Rightarrow> rat \<Rightarrow> nat \<Rightarrow> 'u list \<times> 'u list) \<Rightarrow>
   (resolved_pick list \<Rightarrow> string) \<Rightarrow>
   player list \<Rightarrow> squad_pick list \<Rightarrow> rat \<Rightarrow> nat \<Rightarrow> string \<Rightarrow> string list \<Rightarrow>
   'u analysis_result \<times> string list" where
  "analyseTeam gen assess allPlayers picks b ft nd console =
     (let (squad, console') = currentSquad allPlayers picks console
      in (analysis gen assess allPlayers b (teamValue_of squad) ft nd (filteredSquad squad),
          console'))"

subsection \<open>Sample data\<close>

definition pl7 :: player where
  "pl7 = \<lparr>id_player = 7, now_cost = 55, element_type = Midfielder, team = 3\<rparr>"

definition pk7 :: "int option \<Rightarrow> squad_pick" where
  "pk7 sp = \<lparr>element = 7, position = 4, selling_price = sp,
             is_captain = False, is_vice_captain = False\<rparr>"

text \<open>
  Fifteen players and the fifteen picks that hold them, slot \<open>i\<close> holding player
  \<open>i\<close>: goalkeepers in slots 1 and 12, the one on the bench (slot 12) priced 4.0,
  every other player 3.8 or less; no sell-price override except on slot 3.
\<close>

definition scenario_class :: "nat \<Rightarrow> position_class" where
  "scenario_class i =
     (if i = 1 \<or> i = 12 then Goalkeeper
      else if i \<in> {2, 3, 4, 13, 14} then Defender
      else if i \<in> {5, 6, 7, 8, 15} then Midfielder else Forward)"

definition scenario_players :: "player list" where
  "scenario_players =
     map (\<lambda>i. \<lparr>id_player = i, now_cost = (if i = 12 then 40 else 38 - int (i mod 3)),
                element_type = scenario_class i, team = i mod 7\<rparr>)
         [1, 2, 3, 4, 5, 6, 7, 8, 9, 10, 11, 12, 13, 14, 15]"

definition scenario_picks :: "squad_pick list" where
  "scenario_picks =
     map (\<lambda>i. \<lparr>element = i, position = i, selling_price = (if i = 3 then Some 37 else None),
                is_captain = (i = 9), is_vice_captain = (i = 5)\<rparr>)
         [1, 2, 3, 4, 5, 6, 7, 8, 9, 10, 11, 12, 13, 14, 15]"

section \<open>The question list of run_ai_copilot_test.py\<close>

text \<open>What the scripts raise: an exception is a value, \<open>Inl\<close> of a result.\<close>

datatype py_exception = ValueError string | SystemExit string | FileNotFoundError

definition analysis_focus :: "string list" where
  "analysis_focus =
     [''clean sheets'',
      ''captaincy choices'',
      ''bench depth'',
      ''rotation risks'',
      ''double gameweek preparation'',
      ''price rise potential'',
      ''premium balance'',
      ''midfield form'',
      ''defensive stability'',
      ''attacking upside'',
      ''fixture swings'',
      ''bench boost readiness'']"

definition transfer_scenarios :: "(string \<times> string \<times> string) list" where
  "transfer_scenarios =
     [(''sell Watkins'', ''buy Isak'', ''chasing Newcastle's fixtures''),
      (''move out Salah'', ''bring in Son'', ''budget reallocation''),
      (''downgrade a defender'', ''upgrade a forward'', ''improve goal threat''),
      (''replace injured striker'', ''sign a differential'', ''gain rank''),
      (''swap out budget midfielder'', ''bring in Palmer'', ''capitalise on form''),
      (''remove an underperforming premium'', ''add Saka'', ''stability''),
      (''ship a bench defender'', ''bring in Porro'', ''attacking returns''),
      (''free up cash'', ''buy Haaland'', ''captaincy security''),
      (''replace goalkeeper'', ''add Areola'', ''save funds''),
      (''trade Semenyo'', ''recruit Solanke'', ''fixture swing''),
      (''remove double up'', ''spread risk'', ''mini-league pressure''),
      (''sell suspended player'', ''bring in a starter'', ''avoid blanks'')]"

definition chip_scenarios :: "string list" where
  "chip_scenarios =
     [''Is Gameweek 8 a good time for my wildcard?'',
      ''Should I hold triple captain for a confirmed double gameweek?'',
      ''Evaluate using bench boost right after wildcard.'',
      ''Compare free hit in a blank versus a double gameweek.'',
      ''When should I line up the second wildcard if I already used the first?'',
      ''Assess triple captain options for a premium forward in a single gameweek.'',
      ''Judge whether to free hit during heavy European rotation weeks.'',
      ''Outline a plan to pair wildcard and bench boost effectively.'',
      ''How soon should I schedule bench boost after building value?'',
      ''What chip strategy fits a team chasing top 50k from mid-table position?'']"

definition fixture_scenarios :: "string list" where
  "fixture_scenarios =
     [''Rate Aston Villa's next five fixtures for attack and defence.'',
      ''How tough is Brentford's run from Gameweek 7 to 11?'',
      ''Spot fixture swings that benefit budget defenders soon.'',
      ''Which teams have back-to-back away matches with low FDR?'',
      ''Highlight any double gameweeks expected around Gameweek 12.'',
      ''Identify clubs facing strong opposition three weeks in a row.'',
      ''Compare fixture difficulty for Spurs and Chelsea over the next month.'',
      ''Which promoted team has the softest autumn schedule?'',
      ''Flag a window to target Liverpool assets based on fixtures.'',
      ''When do Manchester United fixtures turn positive again?'']"

definition comparison_pairs :: "(string \<times> string \<times> string) list" where
  "comparison_pairs =
     [(''Saka'', ''Foden'', ''midfield pick''),
      (''Watkins'', ''Isak'', ''forward slot''),
      (''Palmer'', ''Gordon'', ''mid-price midfielder''),
      (''Gabriel'', ''Botman'', ''defender value''),
      (''Areola'', ''Flekken'', ''budget keeper''),
      (''Toney'', ''Solanke'', ''striker differential''),
      (''Diaz'', ''Kulusevski'', ''midfield punt''),
      (''Mitoma'', ''Bailey'', ''fixture run''),
      (''Trippier'', ''Pedro Porro'', ''premium defender''),
      (''Gross'', ''Eze'', ''set-piece reliability'')]"

definition injury_checks :: "string list" where
  "injury_checks =
     [''Is Darwin Nunez likely to start this week after recent knocks?'',
      ''Update me on Wilson's hamstring status before the weekend.'',
      ''Is Martinelli expected back in training for the next fixture?'',
      ''What is the outlook on Reece James minutes after his return?'',
      ''Should I worry about Saka's minor knock from last match?'',
      ''Is Luke Shaw close to full fitness for Manchester United?'',
      ''Provide the latest on Evan Ferguson's availability.'',
      ''Any setback for Matty Cash after his midweek appearance?'']"

definition differential_hunts :: "string list" where
  "differential_hunts =
     [''Suggest under 10 percent owned midfielders with upside.'',
      ''Name a differential forward with good xG in the next month.'',
      ''List defensive punts who cover clean sheets and attacking threat.'',
      ''Identify low-owned captain punts for a high-risk week.'',
      ''Spot hidden gems from promoted teams worth short term investment.'',
      ''Which bench enablers could explode during festive congestion?'',
      ''Find differentials for managers chasing in mini-leagues.'',
      ''Target sub 5 percent owned assets that align with fixture swings.'']"

definition budget_management :: "string list" where
  "budget_management =
     [''Help me stretch a 100.5 million budget without sacrificing premiums.'',
      ''How can I rebalance funds from defence to attack efficiently?'',
      ''Is it viable to go without Haaland and spread cash elsewhere?'',
      ''Advise on downgrading goalkeeper to free funds for midfield upgrade.'',
      ''Plan a two transfer sequence to fund a premium defender move.'',
      ''Suggest budget-friendly midfield rotations for autumn.'',
      ''Manage price drops after an early wildcard without losing value.'',
      ''What is the best way to bank cash for a future double gameweek?'',
      ''Should I chase team value rises aggressively right now?'',
      ''How much money should remain in the bank for flexibility?'']"

definition risk_profiles :: "string list" where
  "risk_profiles =
     [''Outline a conservative strategy to protect a narrow mini-league lead.'',
      ''Design an aggressive plan to climb 500k ranks quickly.'',
      ''How risky is it to triple up on one club's attack right now?'',
      ''When is it smart to take a four point hit in the next month?'',
      ''Balance short term punts with long term structure for my squad.'',
      ''Should I mirror template teams or back contrarian picks?'',
      ''Quantify the risk of rolling transfers versus taking hits.'',
      ''Is it viable to captain a defender when chasing?'',
      ''How can I manage volatility during December fixture congestion?'',
      ''What risk profile suits an FPL manager targeting top 10k?'']"

definition general_queries :: "string list" where
  "general_queries =
     [''Summarise key talking points from the latest press conferences.'',
      ''Which stats should I monitor weekly to stay ahead?'',
      ''Give me a checklist for finalising my squad on deadline day.'',
      ''How should I plan around international breaks to avoid injuries?'',
      ''Share best practices for monitoring price changes daily.'',
      ''What are the biggest mistakes to avoid in the next five gameweeks?'',
      ''Explain how to integrate expected goals into my decisions.'',
      ''Provide advice for managing both FPL and Champions League fantasy.'',
      ''What late season tactics help secure mini-league wins?'',
      ''Offer tips for evaluating eye test versus data driven calls.'']"

text \<open>\<^verbatim>\<open>enumerate(xs, start=i)\<close>.\<close>

fun enumerate_py :: "nat \<Rightarrow> 'a list \<Rightarrow> (nat \<times> 'a) list" where
  "enumerate_py i [] = []"
| "enumerate_py i (x # xs) = (i, x) # enumerate_py (Suc i) xs"

text \<open>
  \<^verbatim>\<open>for x in xs: questions.append(f(x))\<close>: one pass over \<open>xs\<close>, each pair added at
  the end of the list built so far.
\<close>

fun append_each :: "('a \<Rightarrow> 'b) \<Rightarrow> 'a list \<Rightarrow> 'b list \<Rightarrow> 'b list" where
  "append_each f [] questions = questions"
| "append_each f (x # xs) questions = append_each f xs (questions @ [f x])"

definition squad_analysis_prompt :: "nat \<times> string \<Rightarrow> string \<times> string" where
  "squad_analysis_prompt = (\<lambda>(idx, topic).
     (let gw = 7 + (idx mod 6)
      in (''squad_analysis'',
          ''Analyze my squad with emphasis on '' @ topic @ '' ahead of Gameweek '' @
          str_nat gw @ ''.'')))"

definition transfer_prompt :: "string \<times> string \<times> string \<Rightarrow> string \<times> string" where
  "transfer_prompt = (\<lambda>(out_desc, in_desc, reason).
     (''transfer_strategy'',
      ''Help me '' @ out_desc @ '' and '' @ in_desc @ '' for '' @ reason @ ''.''))"

definition comparison_prompt :: "string \<times> string \<times> string \<Rightarrow> string \<times> string" where
  "comparison_prompt = (\<lambda>(left, right, ctxt).
     (''player_comparison'',
      ''Compare '' @ left @ '' versus '' @ right @ '' as my '' @ ctxt @ ''.''))"

definition build_questions :: "py_exception + (string \<times> string) list" where
  "build_questions =
     (let questions = [];
          questions = append_each squad_analysis_prompt (enumerate_py 1 analysis_focus) questions;
          questions = append_each transfer_prompt transfer_scenarios questions;
          questions = append_each (\<lambda>prompt. (''chip_strategy'', prompt)) chip_scenarios questions;
          questions = append_each (\<lambda>prompt. (''fixture_analysis'', prompt)) fixture_scenarios questions;
          questions = append_each comparison_prompt comparison_pairs questions;
          questions = append_each (\<lambda>prompt. (''injury_news'', prompt)) injury_checks questions;
          questions = append_each (\<lambda>prompt. (''differentials'', prompt)) differential_hunts questions;
          questions = append_each (\<lambda>prompt. (''budgeting'', prompt)) budget_management questions;
          questions = append_each (\<lambda>prompt. (''risk_management'', prompt)) risk_profiles questions;
          questions = append_each (\<lambda>prompt. (''general_strategy'', prompt)) general_queries questions
      in if length questions \<noteq> 100
         then Inl (ValueError (''Expected 100 questions, got '' @ str_nat (length questions)))
         else Inr questions)"

section \<open>The patch script fix_analysis_block.py\<close>

text \<open>
  A text is the list of its characters. The patterns of the script are ASCII;
  three of its characters cannot be written inside a string literal here and
  have names: the double quote, the line feed (\<^verbatim>\<open>\n\<close> in the Python literals of
  \<^verbatim>\<open>new\<close> and \<^verbatim>\<open>new2\<close>) and the four characters backslash, r, backslash, n
  (written \<^verbatim>\<open>\\r\\n\<close> in the Python literals of \<^verbatim>\<open>old\<close> and \<^verbatim>\<open>old2\<close>).
\<close>

text \<open>
  \<^verbatim>\<open>s.replace(old, new)\<close>: every occurrence of \<open>old\<close> found scanning from the left,
  the scan going on behind each occurrence replaced. An empty \<open>old\<close> matches
  before every character and at the end.
\<close>

function str_replace :: "'a list \<Rightarrow> 'a list \<Rightarrow> 'a list \<Rightarrow> 'a list" where
  "str_replace [] old new = (if old = [] then new else [])"
| "str_replace (c # cs) old new =
     (if old = [] then new @ c # str_replace cs old new
      else if prefix old (c # cs) then new @ str_replace (drop (length old) (c # cs)) old new
      else c # str_replace cs old new)"
  by pat_completeness auto
termination
  by (relation "measure (\<lambda>(s, old, new). length s)") (auto simp: neq_Nil_conv)

definition dq :: string where
  "dq = [CHR 0x22]"

definition lf :: string where
  "lf = [CHR 0x0A]"

definition esc_crlf :: string where
  "esc_crlf = [CHR 0x5C, CHR ''r'', CHR 0x5C, CHR ''n'']"

definition old :: string where
  "old =
     ''const currentSquad = userSquad.picks.map(pick => {'' @ esc_crlf @
     ''      const player = allPlayers.find(p => p.id === pick.element);'' @ esc_crlf @
     ''      if (!player) {'' @ esc_crlf @
     ''        console.warn(`[analysis] Player data missing for element ${pick.element}`);'' @ esc_crlf @
     ''      }'' @ esc_crlf @
     '''' @ esc_crlf @
     ''      return {'' @ esc_crlf @
     ''        ...pick,'' @ esc_crlf @
     ''        player,'' @ esc_crlf @
     ''        sellPrice: (pick.selling_price || player?.now_cost || 0) / 10,'' @ esc_crlf @
     ''      };'' @ esc_crlf @
     ''    });''"

definition new :: string where
  "new =
     ''const currentSquad = userSquad.picks.map(pick => {'' @ lf @
     ''      const player = allPlayers.find(p => p.id === pick.element);'' @ lf @
     ''      if (!player) {'' @ lf @
     ''        console.warn(`[analysis] Player data missing for element ${pick.element}`);'' @ lf @
     ''      }'' @ lf @
     '''' @ lf @
     ''      return {'' @ lf @
     ''        ...pick,'' @ lf @
     ''        player,'' @ lf @
     ''        sellPrice: (pick.selling_price || player?.now_cost || 0) / 10,'' @ lf @
     ''      };'' @ lf @
     ''    });''"

definition old2 :: string where
  "old2 =
     ''const benchPlayers = filteredSquad.filter(p => p.position > 11);'' @ esc_crlf @
     ''    const starterPlayers = filteredSquad.filter(p => p.position <= 11);'' @ esc_crlf @
     '''' @ esc_crlf @
     ''    if (filteredSquad.length === 0) {'' @ esc_crlf @
     ''      return {'' @ esc_crlf @
     ''        bank,'' @ esc_crlf @
     ''        teamValue,'' @ esc_crlf @
     ''        freeTransfers,'' @ esc_crlf @
     ''        nextDeadline,'' @ esc_crlf @
     ''        maxPlayerPrice: bank,'' @ esc_crlf @
     ''        benchUpgrades: [],'' @ esc_crlf @
     ''        starterTargets: [],'' @ esc_crlf @
     ''        riskAssessment: '' @ dq @ ''insufficient-data'' @ dq @ '','' @ esc_crlf @
     ''      };'' @ esc_crlf @
     ''    }''"

definition new2 :: string where
  "new2 =
     ''const benchPlayers = filteredSquad.filter(p => p.position > 11);'' @ lf @
     ''    const starterPlayers = filteredSquad.filter(p => p.position <= 11);'' @ lf @
     '''' @ lf @
     ''    if (filteredSquad.length === 0) {'' @ lf @
     ''      return {'' @ lf @
     ''        bank,'' @ lf @
     ''        teamValue,'' @ lf @
     ''        freeTransfers,'' @ lf @
     ''        nextDeadline,'' @ lf @
     ''        maxPlayerPrice: bank,'' @ lf @
     ''        benchUpgrades: [],'' @ lf @
     ''        starterTargets: [],'' @ lf @
     ''        riskAssessment: '' @ dq @ ''insufficient-data'' @ dq @ '','' @ lf @
     ''      };'' @ lf @
     ''    }''"

definition old3 :: string where
  "old3 =
     ''const maxSellValue = Math.max(...filteredSquad.map(p => p.sellPrice));''"

definition path :: string where
  "path = ''server/services/analysisEngine.ts''"

text \<open>\<^verbatim>\<open>p in s\<close> on strings is \<^const>\<open>sublist\<close>: \<open>s\<close> is some text, \<open>p\<close>, some text.\<close>

text \<open>
  The script. The files are a map from paths to contents; the result is the
  exception raised, if any, and the files afterwards. \<^verbatim>\<open>read_text\<close> raises when
  there is no file; \<^verbatim>\<open>raise SystemExit(...)\<close> ends the script at once;
  \<^verbatim>\<open>write_text\<close> is the last statement.
\<close>

definition fix_analysis_block ::
  "(string \<rightharpoonup> string) \<Rightarrow> (py_exception + unit) \<times> (string \<rightharpoonup> string)" where
  "fix_analysis_block files =
     (case files path of
        None \<Rightarrow> (Inl FileNotFoundError, files)
      | Some text \<Rightarrow>
          if \<not> sublist old text
          then (Inl (SystemExit ''pattern not found for currentSquad''), files)
          else let text = str_replace text old new in
          if \<not> sublist old2 text
          then (Inl (SystemExit ''pattern not found for benchPlayers''), files)
          else let text = str_replace text old2 new2 in
          if \<not> sublist old3 text
          then (Inl (SystemExit ''pattern not found for maxSellValue''), files)
          else let text = str_replace text old3 old3 in
          (Inr (), files(path \<mapsto> text)))"

text \<open>
  Two texts that cannot overlap: an occurrence of \<open>p\<close> never shares a character
  with an occurrence of \<open>n\<close>. No suffix of \<open>n\<close> but the empty one starts \<open>p\<close>, no
  prefix of \<open>n\<close> but the empty one ends \<open>p\<close>, and neither text lies inside the other.
\<close>

fun no_suffix_prefix :: "'a list \<Rightarrow> 'a list \<Rightarrow> bool" where
  "no_suffix_prefix [] p = True"
| "no_suffix_prefix (x # xs) p = (\<not> prefix (x # xs) p \<and> no_suffix_prefix xs p)"

definition no_overlap :: "'a list \<Rightarrow> 'a list \<Rightarrow> bool" where
  "no_overlap p n =
     (\<not> sublist n p \<and> \<not> sublist p n \<and> no_suffix_prefix n p \<and> no_suffix_prefix (rev n) (rev p))"

section \<open>Recommendation generator\<close>

text \<open>
  The generator is not in the sources at hand; the block of the patch script only
  shows its input (\<^verbatim>\<open>benchPlayers\<close>, \<^verbatim>\<open>starterPlayers\<close>) and the two result lists.
  What follows is its contract, section 4.3 of the specification.
\<close>

text \<open>
  Modelled from the spec: the price of a catalog player in currency units, his
  "current price (fixed-point, tenths of currency unit)" of section 3.
\<close>

definition price :: "player \<Rightarrow> rat" where
  "price p = of_int (now_cost p) / 10"

text \<open>
  Modelled from the spec: an entry of the result lists, section 4.3,
  "{outgoing, incoming, priceDelta, rationale}".
\<close>

record upgrade =
  outgoing :: resolved_pick
  incoming :: player
  priceDelta :: rat
  rationale :: string

text \<open>
  Modelled from the spec: the scoring, which section 4.3 leaves open ("a tunable
  policy, not part of this contract"), is a parameter: a score for bench
  candidates and one for starter candidates (lower is better), how many
  candidates to keep for a slot, and the text of the rationale.
\<close>

record policy =
  bench_score :: "player \<Rightarrow> rat"
  starter_score :: "player \<Rightarrow> rat"
  top_n :: nat
  explain :: "resolved_pick \<Rightarrow> player \<Rightarrow> string"

text \<open>Modelled from the spec: how many picks of the squad belong to club \<open>c\<close>.\<close>

definition club_count :: "resolved_pick list \<Rightarrow> nat \<Rightarrow> nat" where
  "club_count fs c = length (filter (\<lambda>r. map_option team (player r) = Some c) fs)"

text \<open>
  Modelled from the spec: the count of club \<open>c\<close> once the swap is accepted, the
  outgoing pick removed and the incoming player added.
\<close>

definition club_count_after :: "resolved_pick list \<Rightarrow> resolved_pick \<Rightarrow> player \<Rightarrow> nat \<Rightarrow> nat" where
  "club_count_after fs out inc c =
     club_count (remove1 out fs) c + (if team inc = c then 1 else 0)"

text \<open>Modelled from the spec: "players already in the squad", by identifier.\<close>

definition in_squad :: "resolved_pick list \<Rightarrow> player \<Rightarrow> bool" where
  "in_squad fs c = list_ex (\<lambda>r. element (pick r) = id_player c) fs"

text \<open>
  Modelled from the spec: the candidates searched for one outgoing pick,
  "same-position candidates priced at or below ... (maxPlayerPrice) ... excluding
  players already in the squad and excluding clubs that would push the squad
  over the 3-per-club cap".
\<close>

definition legal :: "resolved_pick list \<Rightarrow> rat \<Rightarrow> resolved_pick \<Rightarrow> player \<Rightarrow> bool" where
  "legal fs mpp out c =
     (case player out of
        None \<Rightarrow> False
      | Some q \<Rightarrow>
          element_type c = element_type q \<and> price c \<le> mpp \<and> \<not> in_squad fs c \<and>
          club_count_after fs out c (team c) \<le> 3)"

text \<open>
  Modelled from the spec: an improvement, "the list is empty (not omitted) when no
  legal improvement exists". Candidates are "ranked by a composite ... (lower =
  easier = better)"; a candidate improves on the outgoing player when its score
  is better, that is lower, than his.
\<close>

definition improves :: "(player \<Rightarrow> rat) \<Rightarrow> resolved_pick \<Rightarrow> player \<Rightarrow> bool" where
  "improves score out c = (case player out of None \<Rightarrow> False | Some q \<Rightarrow> score c < score q)"

text \<open>
  Modelled from the spec: "ranked by a composite ...", "Emit the top candidate(s)
  per bench slot as a bench-upgrade entry {outgoing, incoming, priceDelta,
  rationale}", of the legal improvements.
\<close>

definition upgrades_for ::
  "(player \<Rightarrow> rat) \<Rightarrow> policy \<Rightarrow> resolved_pick list \<Rightarrow> player list \<Rightarrow> rat \<Rightarrow> resolved_pick \<Rightarrow>
   upgrade list" where
  "upgrades_for score pol fs catalog mpp out =
     map (\<lambda>c. \<lparr>outgoing = out, incoming = c, priceDelta = price c - sellPrice out,
                rationale = explain pol out c\<rparr>)
         (take (top_n pol)
            (sort_key score
               (filter (\<lambda>c. legal fs mpp out c \<and> improves score out c) catalog)))"

text \<open>
  Modelled from the spec: \<^verbatim>\<open>generate(filteredSquad, catalog, maxPlayerPrice,
  freeTransfers)\<close>, "Split filteredSquad by slot: bench = slot > 11, starters =
  slot <= 11 ... Apply the same procedure to starters", with the starter score.
\<close>

definition generate ::
  "policy \<Rightarrow> resolved_pick list \<Rightarrow> player list \<Rightarrow> rat \<Rightarrow> nat \<Rightarrow> upgrade list \<times> upgrade list" where
  "generate pol fs catalog mpp ft =
     (concat (map (upgrades_for (bench_score pol) pol fs catalog mpp) (benchPlayers fs)),
      concat (map (upgrades_for (starter_score pol) pol fs catalog mpp) (starterPlayers fs)))"

subsection \<open>Sample data\<close>

text \<open>
  A policy that scores a player by his price and keeps one candidate per slot; a
  squad of a starting and a bench goalkeeper; a catalog with four more
  goalkeepers, one cheaper than both, one between the two, one dearer than both
  and one out of reach, and a defender; and a catalog whose only candidate is
  legal and dearer than both.
\<close>

definition cheapest_first :: policy where
  "cheapest_first =
     \<lparr>bench_score = price, starter_score = price, top_n = 1,
      explain = (\<lambda>out c. ''lower score'')\<rparr>"

definition small_catalog :: "player list" where
  "small_catalog =
     [\<lparr>id_player = 1, now_cost = 50, element_type = Goalkeeper, team = 1\<rparr>,
      \<lparr>id_player = 12, now_cost = 40, element_type = Goalkeeper, team = 2\<rparr>,
      \<lparr>id_player = 23, now_cost = 45, element_type = Goalkeeper, team = 6\<rparr>,
      \<lparr>id_player = 20, now_cost = 35, element_type = Goalkeeper, team = 3\<rparr>,
      \<lparr>id_player = 24, now_cost = 55, element_type = Goalkeeper, team = 7\<rparr>,
      \<lparr>id_player = 21, now_cost = 90, element_type = Goalkeeper, team = 4\<rparr>,
      \<lparr>id_player = 22, now_cost = 30, element_type = Defender, team = 5\<rparr>]"

definition dear_catalog :: "player list" where
  "dear_catalog =
     [\<lparr>id_player = 1, now_cost = 50, element_type = Goalkeeper, team = 1\<rparr>,
      \<lparr>id_player = 12, now_cost = 40, element_type = Goalkeeper, team = 2\<rparr>,
      \<lparr>id_player = 24, now_cost = 55, element_type = Goalkeeper, team = 7\<rparr>]"

definition small_picks :: "squad_pick list" where
  "small_picks =
     [\<lparr>element = 1, position = 1, selling_price = None, is_captain = False,
       is_vice_captain = False\<rparr>,
      \<lparr>element = 12, position = 12, selling_price = None, is_captain = False,
       is_vice_captain = False\<rparr>]"

definition no_risk :: "resolved_pick list \<Rightarrow> string" where
  "no_risk fs = ''low''"

definition r1 :: resolved_pick where
  "r1 = \<lparr>pick = \<lparr>element = 1, position = 1, selling_price = None, is_captain = False,
                   is_vice_captain = False\<rparr>,
          player = Some \<lparr>id_player = 1, now_cost = 50, element_type = Goalkeeper, team = 1\<rparr>,
          sellPrice = 5\<rparr>"

definition r12 :: resolved_pick where
  "r12 = \<lparr>pick = \<lparr>element = 12, position = 12, selling_price = None, is_captain = False,
                    is_vice_captain = False\<rparr>,
           player = Some \<lparr>id_player = 12, now_cost = 40, element_type = Goalkeeper, team = 2\<rparr>,
           sellPrice = 4\<rparr>"

definition p20 :: player where
  "p20 = \<lparr>id_player = 20, now_cost = 35, element_type = Goalkeeper, team = 3\<rparr>"

definition p24 :: player where
  "p24 = \<lparr>id_player = 24, now_cost = 55, element_type = Goalkeeper, team = 7\<rparr>"

definition up12 :: upgrade where
  "up12 = \<lparr>outgoing = r12, incoming = p20, priceDelta = - 1 / 2, rationale = ''lower score''\<rparr>"

definition up1 :: upgrade where
  "up1 = \<lparr>outgoing = r1, incoming = p20, priceDelta = - 3 / 2, rationale = ''lower score''\<rparr>"

section \<open>Currency check and grounding validator\<close>

text \<open>
  An answer is a Python string, here the list of its code points. The pound sign
  is U+00A3; its two bytes in UTF-8, read one by one as Latin-1, are the code
  points U+00C2 and U+00A3, the garbled pair of the test script.
\<close>

type_synonym unicode = "nat list"

definition pound :: unicode where
  "pound = [163]"

definition garbled_pound :: unicode where
  "garbled_pound = [194, 163]"

text \<open>
  The check of \<^verbatim>\<open>run_comprehensive_test\<close> in test_ai_copilot_fixes.py, on the state
  \<open>(test_passed, issues)\<close> of the test:
  \<^verbatim>\<open>
  if [pound] in message:
      if [garbled pound] in message or '' in message:
          test_passed = False
          issues.append("Found garbled currency symbols")
  \<close>
  The second operand of \<^verbatim>\<open>or\<close> is the empty string literal.
\<close>

definition check_currency_symbols :: "unicode \<Rightarrow> bool \<times> string list \<Rightarrow> bool \<times> string list" where
  "check_currency_symbols message = (\<lambda>(test_passed, issues).
     if sublist pound message
     then (if sublist garbled_pound message \<or> sublist [] message
           then (False, issues @ [''Found garbled currency symbols''])
           else (test_passed, issues))
     else (test_passed, issues))"

subsection \<open>Mis-decoded currency symbols\<close>

text \<open>
  Modelled from the spec: "a multi-byte mis-decoding" of the currency symbol
  (section 4.5), "a known mis-encoded currency byte sequence" (section 8). A
  currency symbol beyond ASCII is several bytes in UTF-8; a reader that takes
  the bytes one by one through a single-byte code page turns it into as many
  code points. \<open>utf8\<close> is the encoding of one code point.
\<close>

definition utf8 :: "nat \<Rightarrow> nat list" where
  "utf8 c =
     (if c < 128 then [c]
      else if c < 2048 then [192 + c div 64, 128 + c mod 64]
      else if c < 65536 then [224 + c div 4096, 128 + c div 64 mod 64, 128 + c mod 64]
      else [240 + c div 262144, 128 + c div 4096 mod 64, 128 + c div 64 mod 64, 128 + c mod 64])"

text \<open>
  Modelled from the spec: a single-byte code page, as the table of the bytes it
  does not map to the code point of the same number; and the code points a
  currency symbol becomes when its UTF-8 bytes are read through the code page.
\<close>

type_synonym codepage = "(nat \<times> nat) list"

definition decode_byte :: "codepage \<Rightarrow> nat \<Rightarrow> nat" where
  "decode_byte cp b = (case map_of cp b of None \<Rightarrow> b | Some c \<Rightarrow> c)"

definition mis_decode :: "codepage \<Rightarrow> nat \<Rightarrow> unicode" where
  "mis_decode cp cur = map (decode_byte cp) (utf8 cur)"

text \<open>
  Modelled from the spec: the mis-decoded sequences a validator knows, one for
  each of its code pages and each of its currency symbols that is more than one
  byte in UTF-8; and the test for one of them in a text.
\<close>

definition garbled_sequences :: "codepage list \<Rightarrow> nat list \<Rightarrow> unicode list" where
  "garbled_sequences cps curs =
     concat (map (\<lambda>cp. map (mis_decode cp) (filter (\<lambda>cur. 128 \<le> cur) curs)) cps)"

definition malformed_currency :: "codepage list \<Rightarrow> nat list \<Rightarrow> unicode \<Rightarrow> bool" where
  "malformed_currency cps curs answerText =
     list_ex (\<lambda>g. sublist g answerText) (garbled_sequences cps curs)"

text \<open>
  Modelled from the spec: the Grounding Validator itself is not in the sources at
  hand, only the test script that exercises it. Section 4.5,
  \<^verbatim>\<open>validate(answerText, analysisResult) -> {accepted, violations}\<close>: an answer is
  rejected if it mentions an unknown player, refers to a gameweek outside the
  valid window, "contains a malformed currency glyph (... a multi-byte
  mis-decoding is a detectable corruption signature and must be rejected)", or
  omits currency formatting where a price was requested. The kinds of violation
  and the result:
\<close>

datatype violation_kind =
  UnknownPlayer | GameweekOutsideWindow | CurrencyEncoding | CurrencyFormatMissing

record validation =
  accepted :: bool
  violations :: "violation_kind list"

text \<open>
  Modelled from the spec: what a validator is set up with. The code pages and
  currency symbols it knows; and, since section 4.5 does not say how names,
  gameweeks and requested prices are recognised in a text, those three tests.
\<close>

record 'u grounding =
  known_codepages :: "codepage list"
  currency_symbols :: "nat list"
  unknown_player :: "unicode \<Rightarrow> 'u analysis_result \<Rightarrow> bool"
  stale_gameweek :: "unicode \<Rightarrow> bool"
  price_unformatted :: "unicode \<Rightarrow> bool"

text \<open>Modelled from the spec: \<^verbatim>\<open>validate\<close>, section 4.5.\<close>

definition validate :: "'u grounding \<Rightarrow> unicode \<Rightarrow> 'u analysis_result \<Rightarrow> validation" where
  "validate g answerText analysisResult =
     (let vs = (if unknown_player g answerText analysisResult then [UnknownPlayer] else []) @
               (if stale_gameweek g answerText then [GameweekOutsideWindow] else []) @
               (if malformed_currency (known_codepages g) (currency_symbols g) answerText
                then [CurrencyEncoding] else []) @
               (if price_unformatted g answerText then [CurrencyFormatMissing] else [])
      in \<lparr>accepted = (vs = []), violations = vs\<rparr>)"

subsection \<open>Sample data\<close>

text \<open>
  Four code pages: Latin-1, which maps every byte to the code point of the same
  number, Windows-1252, Mac Roman and code page 437; the pound and the euro sign.
\<close>

definition latin1 :: codepage where
  "latin1 = []"

definition cp1252 :: codepage where
  "cp1252 =
     [(128, 8364), (130, 8218), (131, 402), (132, 8222), (133, 8230), (134, 8224),
      (135, 8225), (136, 710), (137, 8240), (138, 352), (139, 8249), (140, 338),
      (142, 381), (145, 8216), (146, 8217), (147, 8220), (148, 8221), (149, 8226),
      (150, 8211), (151, 8212), (152, 732), (153, 8482), (154, 353), (155, 8250),
      (156, 339), (158, 382), (159, 376)]"

definition mac_roman :: codepage where
  "mac_roman =
     [(128, 196), (129, 197), (130, 199), (131, 201), (132, 209), (133, 214), (134, 220),
      (135, 225), (136, 224), (137, 226), (138, 228), (139, 227), (140, 229), (141, 231),
      (142, 233), (143, 232), (144, 234), (145, 235), (146, 237), (147, 236), (148, 238),
      (149, 239), (150, 241), (151, 243), (152, 242), (153, 244), (154, 246), (155, 245),
      (156, 250), (157, 249), (158, 251), (159, 252), (160, 8224), (161, 176), (164, 167),
      (165, 8226), (166, 182), (167, 223), (168, 174), (170, 8482), (171, 180), (172, 168),
      (173, 8800), (174, 198), (175, 216), (176, 8734), (178, 8804), (179, 8805),
      (180, 165), (182, 8706), (183, 8721), (184, 8719), (185, 960), (186, 8747),
      (187, 170), (188, 186), (189, 937), (190, 230), (191, 248), (192, 191), (193, 161),
      (194, 172), (195, 8730), (196, 402), (197, 8776), (198, 8710), (199, 171),
      (200, 187), (201, 8230), (202, 160), (203, 192), (204, 195), (205, 213), (206, 338),
      (207, 339), (208, 8211), (209, 8212), (210, 8220), (211, 8221), (212, 8216),
      (213, 8217), (214, 247), (215, 9674), (216, 255), (217, 376), (218, 8260),
      (219, 8364), (220, 8249), (221, 8250), (222, 64257), (223, 64258), (224, 8225),
      (225, 183), (226, 8218), (227, 8222), (228, 8240), (229, 194), (230, 202),
      (231, 193), (232, 203), (233, 200), (234, 205), (235, 206), (236, 207), (237, 204),
      (238, 211), (239, 212), (240, 63743), (241, 210), (242, 218), (243, 219), (244, 217),
      (245, 305), (246, 710), (247, 732), (248, 175), (249, 728), (250, 729), (251, 730),
      (252, 184), (253, 733), (254, 731), (255, 711)]"

definition cp437 :: codepage where
  "cp437 =
     [(128, 199), (129, 252), (130, 233), (131, 226), (132, 228), (133, 224), (134, 229),
      (135, 231), (136, 234), (137, 235), (138, 232), (139, 239), (140, 238), (141, 236),
      (142, 196), (143, 197), (144, 201), (145, 230), (146, 198), (147, 244), (148, 246),
      (149, 242), (150, 251), (151, 249), (152, 255), (153, 214), (154, 220), (155, 162),
      (156, 163), (157, 165), (158, 8359), (159, 402), (160, 225), (161, 237), (162, 243),
      (163, 250), (164, 241), (165, 209), (166, 170), (167, 186), (168, 191), (169, 8976),
      (170, 172), (171, 189), (172, 188), (173, 161), (174, 171), (175, 187), (176, 9617),
      (177, 9618), (178, 9619), (179, 9474), (180, 9508), (181, 9569), (182, 9570),
      (183, 9558), (184, 9557), (185, 9571), (186, 9553), (187, 9559), (188, 9565),
      (189, 9564), (190, 9563), (191, 9488), (192, 9492), (193, 9524), (194, 9516),
      (195, 9500), (196, 9472), (197, 9532), (198, 9566), (199, 9567), (200, 9562),
      (201, 9556), (202, 9577), (203, 9574), (204, 9568), (205, 9552), (206, 9580),
      (207, 9575), (208, 9576), (209, 9572), (210, 9573), (211, 9561), (212, 9560),
      (213, 9554), (214, 9555), (215, 9579), (216, 9578), (217, 9496), (218, 9484),
      (219, 9608), (220, 9604), (221, 9612), (222, 9616), (223, 9600), (224, 945),
      (225, 223), (226, 915), (227, 960), (228, 931), (229, 963), (230, 181), (231, 964),
      (232, 934), (233, 920), (234, 937), (235, 948), (236, 8734), (237, 966), (238, 949),
      (239, 8745), (240, 8801), (241, 177), (242, 8805), (243, 8804), (244, 8992),
      (245, 8993), (246, 247), (247, 8776), (248, 176), (249, 8729), (250, 183),
      (251, 8730), (252, 8319), (253, 178), (254, 9632), (255, 160)]"

definition sample_grounding :: "upgrade grounding" where
  "sample_grounding =
     \<lparr>known_codepages = [latin1, cp1252, mac_roman, cp437], currency_symbols = [163, 8364],
      unknown_player = (\<lambda>t r. False), stale_gameweek = (\<lambda>t. False),
      price_unformatted = (\<lambda>t. False)\<rparr>"





definition clean_answer :: unicode where
  "clean_answer = [163, 49, 50, 46, 51, 109]"

definition minimal_result :: "upgrade analysis_result" where
  "minimal_result =
     \<lparr>bank = 2, teamValue = 0, freeTransfers = 1, nextDeadline = ''2025-10-03T17:30:00Z'',
      maxPlayerPrice = 2, benchUpgrades = [], starterTargets = [],
      riskAssessment = ''insufficient-data''\<rparr>"

section \<open>Team value in the numbers of the source\<close>

text \<open>
  A JavaScript number is an IEEE 754 double: a whole number of at most 53 bits
  times a power of two, here the pair \<open>(m, e)\<close> that stands for \<open>m * 2 ^ e\<close>.
  Every operation gives the double nearest to the exact result, ties going to
  the even mantissa. Overflow and subnormal numbers are out of reach of prices
  and are not modelled.
\<close>

function bitlen :: "int \<Rightarrow> nat" where
  "bitlen n = (if n \<le> 0 then 0 else Suc (bitlen (n div 2)))"
  by pat_completeness auto
termination
  by (relation "measure nat") auto

declare bitlen.simps [simp del]

text \<open>
  Rounding \<open>m * 2 ^ e\<close>, \<open>m\<close> not negative, to 53 bits; \<open>sticky\<close> says that the exact
  value lies above \<open>m * 2 ^ e\<close> by less than one unit of \<open>m\<close>.
\<close>

definition round53 :: "int \<Rightarrow> bool \<Rightarrow> int \<Rightarrow> int \<times> int" where
  "round53 m sticky e =
     (let k = bitlen m
      in if k \<le> 53 then (m, e)
         else let sh = k - 53; q = m div 2 ^ sh; r = m mod 2 ^ sh; half = 2 ^ (sh - 1);
                  up = (half < r \<or> (r = half \<and> (sticky \<or> odd q)))
              in (if up then q + 1 else q, e + int sh))"

text \<open>\<^verbatim>\<open>x / b\<close> for whole numbers \<open>x\<close> and \<open>b > 0\<close>, as in \<^verbatim>\<open>(...) / 10\<close>.\<close>

definition double_div :: "int \<Rightarrow> int \<Rightarrow> int \<times> int" where
  "double_div x b =
     (if x = 0 then (0, 0)
      else let k = 64 + bitlen b; a = \<bar>x\<bar> * 2 ^ k;
               (n, e) = round53 (a div b) (a mod b \<noteq> 0) (- int k)
           in (sgn x * n, e))"

text \<open>\<^verbatim>\<open>a + b\<close> on doubles.\<close>

definition double_add :: "int \<times> int \<Rightarrow> int \<times> int \<Rightarrow> int \<times> int" where
  "double_add = (\<lambda>(m1, e1) (m2, e2).
     (let e = min e1 e2; m = m1 * 2 ^ nat (e1 - e) + m2 * 2 ^ nat (e2 - e);
          (n, e') = round53 \<bar>m\<bar> False e
      in (sgn m * n, e')))"

text \<open>The number a double stands for.\<close>

definition double_val :: "int \<times> int \<Rightarrow> rat" where
  "double_val = (\<lambda>(m, e). if 0 \<le> e then of_int m * 2 ^ nat e else of_int m / 2 ^ nat (- e))"



subsection \<open>Sample data\<close>



section \<open>Properties of the squad snapshot\<close>

lemma sell_price_override:
  "selling_price pk = Some v \<Longrightarrow> v \<noteq> 0 \<Longrightarrow> sell_price pk pl = of_int v / 10"
  by (simp add: sell_price_def)

lemma sell_price_player:
  "selling_price pk = None \<or> selling_price pk = Some 0 \<Longrightarrow>
   sell_price pk (Some p) = of_int (now_cost p) / 10"
  by (auto simp: sell_price_def opt_now_cost_def)

lemma sell_price_absent:
  "sell_price pk None = (case selling_price pk of None \<Rightarrow> 0 | Some v \<Rightarrow> of_int v / 10)"
  by (auto simp: sell_price_def opt_now_cost_def split: option.splits)

lemma fst_resolve_pick:
  "fst (resolve_pick A pk c) =
     \<lparr>pick = pk, player = find (\<lambda>p. id_player p = element pk) A,
      sellPrice = sell_price pk (find (\<lambda>p. id_player p = element pk) A)\<rparr>"
  by (simp add: resolve_pick_def Let_def)

lemma snd_resolve_pick:
  "snd (resolve_pick A pk c) =
     c @ (if find (\<lambda>p. id_player p = element pk) A = None then [missing_warning (element pk)] else [])"
  by (simp add: resolve_pick_def Let_def)

lemma fst_currentSquad:
  "fst (currentSquad A pks c) = map (\<lambda>pk. fst (resolve_pick A pk [])) pks"
proof (induction pks arbitrary: c)
  case Nil
  show ?case by simp
next
  case (Cons pk pks)
  have "fst (currentSquad A (pk # pks) c)
        = fst (resolve_pick A pk c) # fst (currentSquad A pks (snd (resolve_pick A pk c)))"
    by (simp add: split_beta Let_def)
  then show ?case
    using Cons.IH by (simp add: fst_resolve_pick)
qed

lemma snd_currentSquad:
  "snd (currentSquad A pks c) =
     c @ concat (map (\<lambda>pk. if find (\<lambda>p. id_player p = element pk) A = None
                             then [missing_warning (element pk)] else []) pks)"
proof (induction pks arbitrary: c)
  case Nil
  show ?case by simp
next
  case (Cons pk pks)
  have "snd (currentSquad A (pk # pks) c) = snd (currentSquad A pks (snd (resolve_pick A pk c)))"
    by (simp add: split_beta Let_def)
  then show ?case
    using Cons.IH by (simp add: snd_resolve_pick)
qed

lemma length_currentSquad: "length (fst (currentSquad A pks c)) = length pks"
  by (simp add: fst_currentSquad)

lemma teamValue_of_split:
  "i < length squad \<Longrightarrow>
   teamValue_of squad = sellPrice (squad ! i) + teamValue_of (take i squad @ drop (Suc i) squad)"
proof -
  assume i: "i < length squad"
  then have "squad = take i squad @ squad ! i # drop (Suc i) squad"
    by (simp add: id_take_nth_drop)
  then have "teamValue_of squad = teamValue_of (take i squad @ squad ! i # drop (Suc i) squad)"
    by simp
  then show ?thesis
    by (simp add: teamValue_of_def)
qed

text \<open>
  C1. The sell price of every resolved pick follows the resolution order: the
  override when it is present and not zero, whatever the player's price; else
  the current price of the player found in the catalog; else zero. The amounts
  on the right are the fixed-point tenths of the data source read in currency
  units, as \<^verbatim>\<open>sellPrice\<close> is.
\<close>

theorem sell_price_resolution_order:
  "(selling_price pk = Some v \<and> v \<noteq> 0 \<longrightarrow>
      sellPrice (fst (resolve_pick allPlayers pk console)) = of_int v / 10) \<and>
   ((selling_price pk = None \<or> selling_price pk = Some 0) \<and>
    find (\<lambda>p. id_player p = element pk) allPlayers = Some p \<longrightarrow>
      sellPrice (fst (resolve_pick allPlayers pk console)) = of_int (now_cost p) / 10) \<and>
   ((selling_price pk = None \<or> selling_price pk = Some 0) \<and>
    find (\<lambda>p. id_player p = element pk) allPlayers = None \<longrightarrow>
      sellPrice (fst (resolve_pick allPlayers pk console)) = 0)"
  by (auto simp: fst_resolve_pick sell_price_override sell_price_player sell_price_absent)

theorem sell_price_resolution_order_witness:
  "(selling_price (pk7 (Some 40)) = Some 40 \<and> (40::int) \<noteq> 0 \<and>
    sellPrice (fst (resolve_pick [pl7] (pk7 (Some 40)) [])) = 4) \<and>
   (selling_price (pk7 None) = None \<and>
    find (\<lambda>p. id_player p = element (pk7 None)) [pl7] = Some pl7 \<and>
    sellPrice (fst (resolve_pick [pl7] (pk7 None) [])) = 11 / 2) \<and>
   (selling_price (pk7 (Some 0)) = Some 0 \<and>
    find (\<lambda>p. id_player p = element (pk7 (Some 0))) [] = None \<and>
    sellPrice (fst (resolve_pick [] (pk7 (Some 0)) [])) = 0)"
  using sell_price_resolution_order [of "pk7 (Some 40)" 40 "[pl7]" "[]" pl7]
        sell_price_resolution_order [of "pk7 None" 0 "[pl7]" "[]" pl7]
        sell_price_resolution_order [of "pk7 (Some 0)" 0 "[]" "[]" pl7]
  by (simp add: pk7_def pl7_def)

lemma digit_roundtrip: "d < 10 \<Longrightarrow> of_char (char_of (48 + d) :: char) - 48 = (d::nat)"
  by simp

text \<open>The rendering determines the number, so a warning names one identifier.\<close>

lemma read_nat_str_nat: "read_nat (str_nat n) = n"
proof (induction n rule: str_nat.induct)
  case (1 n)
  show ?case
  proof (cases "n < 10")
    case True
    then show ?thesis
      by (subst str_nat.simps) (simp add: read_nat_def)
  next
    case False
    have "read_nat (str_nat n) = 10 * read_nat (str_nat (n div 10)) + n mod 10"
      using False by (subst str_nat.simps) (simp add: read_nat_def)
    then show ?thesis
      using 1 False by simp
  qed
qed

lemma str_nat_inj: "str_nat m = str_nat n \<Longrightarrow> m = n"
  by (metis read_nat_str_nat)

lemma missing_warning_inj: "missing_warning m = missing_warning n \<Longrightarrow> m = n"
  by (simp add: missing_warning_def str_nat_inj)

text \<open>
  C4. A pick whose identifier has no record in the catalog: the snapshot has an
  entry for it at the same place, with no player and with the sell price of the
  fallback order (the override, else zero); the console holds the warning that
  ends with the identifier (and names no other); the entry is not in the usable subset and its sell
  price is a summand of the team value. The block has no operation that throws
  (\<^verbatim>\<open>find\<close> returns undefined, \<^verbatim>\<open>?.\<close> guards the access), so the model has no
  error value.
\<close>

theorem missing_player_recovered:
  assumes "i < length pks"
      and "find (\<lambda>p. id_player p = element (pks ! i)) allPlayers = None"
  shows "length (fst (currentSquad allPlayers pks console)) = length pks \<and>
         fst (currentSquad allPlayers pks console) ! i =
           \<lparr>pick = pks ! i, player = None,
            sellPrice = (case selling_price (pks ! i) of None \<Rightarrow> 0 | Some v \<Rightarrow> of_int v / 10)\<rparr> \<and>
         (''[analysis] Player data missing for element '' @ str_nat (element (pks ! i)))
           \<in> set (snd (currentSquad allPlayers pks console)) \<and>
         fst (currentSquad allPlayers pks console) ! i
           \<notin> set (filteredSquad (fst (currentSquad allPlayers pks console))) \<and>
         teamValue_of (fst (currentSquad allPlayers pks console)) =
           sellPrice (fst (currentSquad allPlayers pks console) ! i) +
           teamValue_of (take i (fst (currentSquad allPlayers pks console)) @
                         drop (Suc i) (fst (currentSquad allPlayers pks console)))"
proof -
  let ?squad = "fst (currentSquad allPlayers pks console)"
  have len: "length ?squad = length pks"
    by (rule length_currentSquad)
  have nth: "?squad ! i = \<lparr>pick = pks ! i, player = None,
            sellPrice = (case selling_price (pks ! i) of None \<Rightarrow> 0 | Some v \<Rightarrow> of_int v / 10)\<rparr>"
    using assms by (simp add: fst_currentSquad fst_resolve_pick sell_price_absent)
  have "pks ! i \<in> set pks"
    using assms(1) by simp
  then have warn: "missing_warning (element (pks ! i)) \<in> set (snd (currentSquad allPlayers pks console))"
    using assms(2) by (auto simp: snd_currentSquad intro!: bexI [of _ "pks ! i"])
  have out: "?squad ! i \<notin> set (filteredSquad ?squad)"
    by (simp add: nth filteredSquad_def)
  have tv: "teamValue_of ?squad = sellPrice (?squad ! i) + teamValue_of (take i ?squad @ drop (Suc i) ?squad)"
    using assms(1) len by (intro teamValue_of_split) simp
  show ?thesis
    using len nth warn out tv by (simp add: missing_warning_def)
qed

theorem missing_player_recovered_witness:
  "(0::nat) < length [pk7 (Some 40)] \<and>
   find (\<lambda>p. id_player p = element ([pk7 (Some 40)] ! 0)) [] = None \<and>
   fst (currentSquad [] [pk7 (Some 40)] []) ! 0 =
     \<lparr>pick = pk7 (Some 40), player = None, sellPrice = 4\<rparr> \<and>
   ''[analysis] Player data missing for element 7'' \<in> set (snd (currentSquad [] [pk7 (Some 40)] [])) \<and>
   teamValue_of (fst (currentSquad [] [pk7 (Some 40)] [])) = 4"
proof -
  have s: "str_nat 7 = ''7''"
    by code_simp
  have e: "element (pk7 (Some 40)) = 7" "selling_price (pk7 (Some 40)) = Some 40"
    by (simp_all add: pk7_def)
  show ?thesis
    using missing_player_recovered [of 0 "[pk7 (Some 40)]" "[]" "[]"]
    by (simp add: s e teamValue_of_def)
qed

section \<open>Properties of the valuation\<close>

lemma analysis_Nil:
  "analysis gen assess A b tv ft nd [] =
     \<lparr>bank = b, teamValue = tv, freeTransfers = ft, nextDeadline = nd,
      maxPlayerPrice = b, benchUpgrades = [], starterTargets = [],
      riskAssessment = ''insufficient-data''\<rparr>"
  by (simp add: analysis_def)

lemma fst_analyseTeam:
  "fst (analyseTeam gen assess A pks b ft nd c) =
     analysis gen assess A b (teamValue_of (fst (currentSquad A pks c))) ft nd
       (filteredSquad (fst (currentSquad A pks c)))"
  by (simp add: analyseTeam_def split_beta)

text \<open>
  C2. When the usable subset is empty the result is exactly the minimal one:
  bank, team value, free transfers and deadline passed through, the price
  ceiling equal to the bank, both recommendation lists empty and the label
  "insufficient-data". The generator and the assessor are arbitrary here, so
  neither has any part in the result. For an empty list of picks in particular
  the ceiling is the bank.
\<close>

theorem empty_squad_short_circuit:
  "(filteredSquad (fst (currentSquad allPlayers picks console)) = [] \<longrightarrow>
      fst (analyseTeam gen assess allPlayers picks b ft nd console) =
        \<lparr>bank = b, teamValue = teamValue_of (fst (currentSquad allPlayers picks console)),
         freeTransfers = ft, nextDeadline = nd, maxPlayerPrice = b,
         benchUpgrades = [], starterTargets = [], riskAssessment = ''insufficient-data''\<rparr>) \<and>
   fst (analyseTeam gen assess allPlayers [] b ft nd console) =
        \<lparr>bank = b, teamValue = 0, freeTransfers = ft, nextDeadline = nd, maxPlayerPrice = b,
         benchUpgrades = [], starterTargets = [], riskAssessment = ''insufficient-data''\<rparr>"
  by (simp add: fst_analyseTeam analysis_Nil filteredSquad_def teamValue_of_def)

theorem empty_squad_short_circuit_witness:
  "filteredSquad (fst (currentSquad [] [pk7 (Some 40)] [])) = [] \<and>
   fst (analyseTeam (\<lambda>fs A m ft. ([], [] :: unit list)) (\<lambda>fs. ''low'') [] [pk7 (Some 40)] 2 1 ''2025-10-03T17:30:00Z'' []) =
        \<lparr>bank = 2, teamValue = 4, freeTransfers = 1, nextDeadline = ''2025-10-03T17:30:00Z'',
         maxPlayerPrice = 2, benchUpgrades = [], starterTargets = [],
         riskAssessment = ''insufficient-data''\<rparr>"
  using empty_squad_short_circuit [of "[]" "[pk7 (Some 40)]" "[]" "\<lambda>fs A m ft. ([], [] :: unit list)" "\<lambda>fs. ''low''" 2 1 "''2025-10-03T17:30:00Z''"]
  by (simp add: filteredSquad_def teamValue_of_def fst_resolve_pick sell_price_def pk7_def
      opt_now_cost_def split_beta)

lemma Math_max_Max: "Math_max x xs = Max (set (x # xs))"
proof -
  have "foldl max x xs = fold max xs x"
    by (simp add: foldl_conv_fold max.commute)
  then show ?thesis
    unfolding Math_max_def by (simp only: Max.set_eq_fold)
qed

lemma maxPlayerPrice_analysis:
  "fs \<noteq> [] \<Longrightarrow>
   maxPlayerPrice (analysis gen assess A b tv ft nd fs) = b + Max (sellPrice ` set fs)"
  by (cases fs) (simp_all add: analysis_def Let_def Math_max_Max)

text \<open>
  C3. When the usable subset is not empty, the price ceiling is the bank plus
  the greatest sell price of the usable subset. In the scenario of fifteen
  resolvable picks with bank 2.0 and greatest sell price 4.0 it is 6.0.
\<close>

theorem maxPlayerPrice_bank_plus_max:
  "filteredSquad (fst (currentSquad allPlayers picks console)) \<noteq> [] \<Longrightarrow>
   maxPlayerPrice (fst (analyseTeam gen assess allPlayers picks b ft nd console)) =
     b + Max (sellPrice ` set (filteredSquad (fst (currentSquad allPlayers picks console))))"
  by (simp add: fst_analyseTeam maxPlayerPrice_analysis)

lemma scenario_squad:
  "fst (currentSquad scenario_players scenario_picks console) =
     map (\<lambda>pk. \<lparr>pick = pk, player = find (\<lambda>p. id_player p = element pk) scenario_players,
                 sellPrice = sell_price pk (find (\<lambda>p. id_player p = element pk) scenario_players)\<rparr>)
         scenario_picks"
  by (simp add: fst_currentSquad fst_resolve_pick)

theorem maxPlayerPrice_bank_plus_max_witness:
  "length scenario_picks = 15 \<and>
   filteredSquad (fst (currentSquad scenario_players scenario_picks [])) \<noteq> [] \<and>
   length (filteredSquad (fst (currentSquad scenario_players scenario_picks []))) = 15 \<and>
   maxPlayerPrice (fst (analyseTeam (\<lambda>fs A m ft. ([], [] :: unit list)) (\<lambda>fs. ''low'') scenario_players scenario_picks 2 1 ''2025-10-03T17:30:00Z'' [])) = 6"
proof -
  let ?fs = "filteredSquad (fst (currentSquad scenario_players scenario_picks []))"
  have fs: "map sellPrice ?fs =
      [37 / 10, 36 / 10, 37 / 10, 37 / 10, 36 / 10, 38 / 10, 37 / 10, 36 / 10,
       38 / 10, 37 / 10, 36 / 10, 4, 37 / 10, 36 / 10, 38 / 10]"
    unfolding scenario_squad
    by (simp add: filteredSquad_def scenario_picks_def scenario_players_def
        sell_price_def opt_now_cost_def)
  have ne: "?fs \<noteq> []" using fs by auto
  have len: "length ?fs = 15" using arg_cong [OF fs, of length] by simp
  have l15: "length scenario_picks = 15" by (simp add: scenario_picks_def)
  have "sellPrice ` set ?fs = set (map sellPrice ?fs)" by simp
  also have "Max \<dots> = 4" unfolding fs by simp
  finally have mx: "Max (sellPrice ` set ?fs) = 4" .
  show ?thesis
    using maxPlayerPrice_bank_plus_max [OF ne, of "\<lambda>fs A m ft. ([], [] :: unit list)" "\<lambda>fs. ''low''" 2 1
        "''2025-10-03T17:30:00Z''"] mx ne len l15
    by simp
qed








subsection \<open>The sum in doubles depends on the order\<close>

lemmas double_eval = double_val_def double_div_def double_add_def round53_def bitlen.simps Let_def

text \<open>The model against known doubles: 0.1, and 0.1 + 0.2, which is 0.30000000000000004.\<close>

lemma double_one_tenth: "double_val (double_div 1 10) = 3602879701896397 / 36028797018963968"
  by (simp add: double_eval)

lemma double_tenth_plus_two_tenths:
  "double_val (double_add (double_div 1 10) (double_div 2 10)) =
     1351079888211149 / 4503599627370496"
  by (simp add: double_eval)

lemma double_div_exact: "double_val (double_div 40 10) = 4"
  by (simp add: double_eval)






section \<open>Properties of the question list\<close>

lemma append_each_map: "append_each f xs questions = questions @ map f xs"
  by (induction xs arbitrary: questions) simp_all

lemma length_enumerate_py: "length (enumerate_py i xs) = length xs"
  by (induction xs arbitrary: i) simp_all

lemma group_counts:
  "length analysis_focus = 12" "length transfer_scenarios = 12" "length chip_scenarios = 10"
  "length fixture_scenarios = 10" "length comparison_pairs = 10" "length injury_checks = 8"
  "length differential_hunts = 8" "length budget_management = 10" "length risk_profiles = 10"
  "length general_queries = 10"
  by (simp_all add: analysis_focus_def transfer_scenarios_def chip_scenarios_def
      fixture_scenarios_def comparison_pairs_def injury_checks_def differential_hunts_def
      budget_management_def risk_profiles_def general_queries_def)

text \<open>
  C10. \<^verbatim>\<open>build_questions\<close> returns a list of exactly 100 pairs of a category and a
  prompt: the ten groups count 12, 12, 10, 10, 10, 8, 8, 10, 10 and 10, so the
  branch that raises \<^verbatim>\<open>ValueError\<close> is never taken.
\<close>

theorem build_questions_100:
  "(\<exists>questions. build_questions = Inr questions \<and> length questions = 100) \<and>
   (\<forall>e. build_questions \<noteq> Inl e)"
proof -
  let ?qs = "map squad_analysis_prompt (enumerate_py 1 analysis_focus) @
             map transfer_prompt transfer_scenarios @
             map (\<lambda>prompt. (''chip_strategy'', prompt)) chip_scenarios @
             map (\<lambda>prompt. (''fixture_analysis'', prompt)) fixture_scenarios @
             map comparison_prompt comparison_pairs @
             map (\<lambda>prompt. (''injury_news'', prompt)) injury_checks @
             map (\<lambda>prompt. (''differentials'', prompt)) differential_hunts @
             map (\<lambda>prompt. (''budgeting'', prompt)) budget_management @
             map (\<lambda>prompt. (''risk_management'', prompt)) risk_profiles @
             map (\<lambda>prompt. (''general_strategy'', prompt)) general_queries"
  have len: "length ?qs = 100"
    by (simp add: length_enumerate_py group_counts)
  have "build_questions = (if length ?qs \<noteq> 100
          then Inl (ValueError (''Expected 100 questions, got '' @ str_nat (length ?qs)))
          else Inr ?qs)"
    unfolding build_questions_def Let_def append_each_map by simp
  then have res: "build_questions = Inr ?qs"
    using len by simp
  have "\<exists>questions. build_questions = Inr questions \<and> length questions = 100"
    using res len by (intro exI [of _ ?qs] conjI)
  moreover have "\<forall>e. build_questions \<noteq> Inl e"
    unfolding res by simp
  ultimately show ?thesis
    by (rule conjI)
qed

text \<open>The first pair of the list: index 1, hence gameweek 8.\<close>

lemma first_question:
  "map squad_analysis_prompt (take 1 (enumerate_py 1 analysis_focus)) =
     [(''squad_analysis'', ''Analyze my squad with emphasis on clean sheets ahead of Gameweek 8.'')]"
  by code_simp

section \<open>Properties of the patch script\<close>

lemma no_suffix_prefixD:
  "no_suffix_prefix n p \<Longrightarrow> suffix s n \<Longrightarrow> prefix s p \<Longrightarrow> s = []"
proof (induction n)
  case Nil
  then show ?case by simp
next
  case (Cons x xs)
  then show ?case
    by (auto simp: suffix_Cons)
qed

lemma no_overlap_split:
  assumes "no_overlap p n" and "p = p1 @ p2"
  shows "suffix p1 n \<Longrightarrow> p1 = []" and "prefix p2 n \<Longrightarrow> p2 = []"
proof -
  have sp: "no_suffix_prefix n p" and ps: "no_suffix_prefix (rev n) (rev p)"
    using assms(1) by (simp_all add: no_overlap_def)
  show "p1 = []" if "suffix p1 n"
    using no_suffix_prefixD [OF sp that] assms(2) by simp
  show "p2 = []" if "prefix p2 n"
  proof -
    have "suffix (rev p2) (rev n)"
      using that by (simp add: suffix_to_prefix)
    moreover have "prefix (rev p2) (rev p)"
      using assms(2) by simp
    ultimately have "rev p2 = []"
      by (rule no_suffix_prefixD [OF ps])
    then show ?thesis by simp
  qed
qed

lemma sublist_across:
  assumes no: "no_overlap p n" and sub: "sublist p (a @ n @ b)"
  shows "sublist p a \<or> sublist p b"
proof -
  have nn: "\<not> sublist n p" and pn: "\<not> sublist p n"
    using no by (simp_all add: no_overlap_def)
  from sub consider "sublist p a" | "sublist p (n @ b)"
    | p1 p2 where "p = p1 @ p2" "suffix p1 a" "prefix p2 (n @ b)"
    by (auto simp: sublist_append [of p a])
  then show ?thesis
  proof cases
    case 1
    then show ?thesis ..
  next
    case 2
    then consider "sublist p b" | q1 q2 where "p = q1 @ q2" "suffix q1 n" "prefix q2 b"
      using pn by (auto simp: sublist_append [of p n])
    then show ?thesis
    proof cases
      case 1
      then show ?thesis ..
    next
      case 2
      then have "q1 = []"
        using no_overlap_split(1) [OF no] by blast
      then show ?thesis
        using 2 by auto
    qed
  next
    case 3
    from 3(3) consider "prefix p2 n" | r where "p2 = n @ r"
      by (auto simp: prefix_append)
    then show ?thesis
    proof cases
      case 1
      then have "p2 = []"
        using no_overlap_split(2) [OF no 3(1)] by blast
      then show ?thesis
        using 3 by auto
    next
      case 2
      then have "sublist n p"
        using 3(1) by (auto simp: sublist_def)
      then show ?thesis
        using nn by simp
    qed
  qed
qed

lemma str_replace_no_new_occurrence:
  "no_overlap p n \<Longrightarrow> pat \<noteq> [] \<Longrightarrow> sublist p (acc @ str_replace s pat n) \<Longrightarrow>
   sublist p (acc @ s)"
proof (induction s pat n arbitrary: acc rule: str_replace.induct)
  case (1 pat n)
  then show ?case by simp
next
  case (2 c cs pat n)
  show ?case
  proof (cases "prefix pat (c # cs)")
    case True
    let ?rest = "drop (length pat) (c # cs)"
    have split: "c # cs = pat @ ?rest"
      using True by (metis append_take_drop_id prefix_def append_eq_conv_conj)
    have "sublist p (acc @ n @ str_replace ?rest pat n)"
      using "2.prems" True by simp
    then have "sublist p acc \<or> sublist p (str_replace ?rest pat n)"
      using "2.prems"(1) by (rule sublist_across [rotated])
    then show ?thesis
    proof
      assume "sublist p acc"
      then show ?thesis
        by (metis sublist_order.order_trans sublist_append_rightI)
    next
      assume "sublist p (str_replace ?rest pat n)"
      then have "sublist p ([] @ str_replace ?rest pat n)"
        by simp
      then have "sublist p ([] @ ?rest)"
        using "2.IH"(2) [OF "2.prems"(2) True "2.prems"(1) "2.prems"(2)] by blast
      then have "sublist p ?rest"
        by simp
      then have "sublist p ((acc @ pat) @ ?rest)"
        by (metis sublist_order.order_trans sublist_append_leftI)
      then show ?thesis
        using split by simp
    qed
  next
    case False
    have "sublist p ((acc @ [c]) @ str_replace cs pat n)"
      using "2.prems" False by simp
    then have "sublist p ((acc @ [c]) @ cs)"
      using "2.IH"(3) [OF "2.prems"(2) False "2.prems"(1) "2.prems"(2)] by blast
    then show ?thesis
      by simp
  qed
qed

lemma str_replace_same_aux: "pat \<noteq> [] \<Longrightarrow> n = pat \<Longrightarrow> str_replace s pat n = s"
proof (induction s pat n rule: str_replace.induct)
  case (1 pat n)
  then show ?case by simp
next
  case (2 c cs pat n)
  show ?case
  proof (cases "prefix pat (c # cs)")
    case True
    then have "c # cs = pat @ drop (length pat) (c # cs)"
      by (metis append_eq_conv_conj prefix_def)
    then show ?thesis
      using 2 True by simp
  next
    case False
    then show ?thesis
      using 2 by simp
  qed
qed

lemma str_replace_same: "pat \<noteq> [] \<Longrightarrow> str_replace s pat pat = s"
  by (simp add: str_replace_same_aux)

lemma no_overlap_old3_new: "no_overlap old3 new"
  by code_simp

lemma no_overlap_old3_new2: "no_overlap old3 new2"
  by code_simp

lemma no_overlap_old2_new: "no_overlap old2 new"
  by code_simp

lemma patterns_nonempty: "old \<noteq> []" "old2 \<noteq> []" "old3 \<noteq> []"
  by (simp_all add: old_def old2_def old3_def)

lemma old2_not_created:
  "\<not> sublist old2 text \<Longrightarrow> \<not> sublist old2 (str_replace text old new)"
  using str_replace_no_new_occurrence [OF no_overlap_old2_new patterns_nonempty(1), of "[]" "text"]
  by auto

lemma old3_not_created:
  assumes "\<not> sublist old3 text"
  shows "\<not> sublist old3 (str_replace (str_replace text old new) old2 new2)"
proof -
  have "\<not> sublist old3 (str_replace text old new)"
    using assms
      str_replace_no_new_occurrence [OF no_overlap_old3_new patterns_nonempty(1), of "[]" "text"]
    by auto
  then show ?thesis
    using str_replace_no_new_occurrence [OF no_overlap_old3_new2 patterns_nonempty(2),
        of "[]" "str_replace text old new"]
    by auto
qed

lemma fix_analysis_block_cases:
  assumes "files path = Some text"
  shows "fix_analysis_block files =
     (if \<not> sublist old text
      then (Inl (SystemExit ''pattern not found for currentSquad''), files)
      else if \<not> sublist old2 (str_replace text old new)
      then (Inl (SystemExit ''pattern not found for benchPlayers''), files)
      else if \<not> sublist old3 (str_replace (str_replace text old new) old2 new2)
      then (Inl (SystemExit ''pattern not found for maxSellValue''), files)
      else (Inr (), files(path \<mapsto> str_replace (str_replace text old new) old2 new2)))"
  using assms by (simp add: fix_analysis_block_def Let_def str_replace_same patterns_nonempty)

lemma fix_analysis_block_missing:
  "files path = None \<Longrightarrow> fix_analysis_block files = (Inl FileNotFoundError, files)"
  by (simp add: fix_analysis_block_def)

text \<open>
  C9. The patch script is atomic on error. Whatever it raises, the files are as
  they were. When the target file exists and one of the three patterns \<^verbatim>\<open>old\<close>,
  \<^verbatim>\<open>old2\<close>, \<^verbatim>\<open>old3\<close> is absent from its content, the script ends with
  \<^verbatim>\<open>SystemExit\<close> and nothing is written: the replacements made before a test
  cannot create the pattern it looks for. When the script ends normally, each
  pattern was found in the text as it stood at its test, and the file holds the
  text with \<^verbatim>\<open>old\<close> and \<^verbatim>\<open>old2\<close> replaced (replacing \<^verbatim>\<open>old3\<close> by itself changes
  nothing).
\<close>

theorem patch_atomic_on_error:
  "(\<forall>e. fst (fix_analysis_block files) = Inl e \<longrightarrow> snd (fix_analysis_block files) = files) \<and>
   (files path = Some text \<and>
    (\<not> sublist old text \<or> \<not> sublist old2 text \<or> \<not> sublist old3 text) \<longrightarrow>
      (\<exists>msg. fix_analysis_block files = (Inl (SystemExit msg), files))) \<and>
   (fst (fix_analysis_block files) = Inr () \<longrightarrow>
      (\<exists>t. files path = Some t \<and> sublist old t \<and>
           sublist old2 (str_replace t old new) \<and>
           sublist old3 (str_replace (str_replace t old new) old2 new2) \<and>
           snd (fix_analysis_block files) =
             files(path \<mapsto> str_replace (str_replace t old new) old2 new2)))"
proof (intro conjI allI impI)
  fix e
  assume "fst (fix_analysis_block files) = Inl e"
  then show "snd (fix_analysis_block files) = files"
    by (cases "files path")
       (auto simp: fix_analysis_block_missing fix_analysis_block_cases split: if_splits)
next
  assume a: "files path = Some text \<and>
    (\<not> sublist old text \<or> \<not> sublist old2 text \<or> \<not> sublist old3 text)"
  then have "\<not> sublist old text \<or> \<not> sublist old2 (str_replace text old new) \<or>
        \<not> sublist old3 (str_replace (str_replace text old new) old2 new2)"
    using old2_not_created old3_not_created by blast
  then show "\<exists>msg. fix_analysis_block files = (Inl (SystemExit msg), files)"
    using a by (auto simp: fix_analysis_block_cases)
next
  assume "fst (fix_analysis_block files) = Inr ()"
  then show "\<exists>t. files path = Some t \<and> sublist old t \<and>
           sublist old2 (str_replace t old new) \<and>
           sublist old3 (str_replace (str_replace t old new) old2 new2) \<and>
           snd (fix_analysis_block files) =
             files(path \<mapsto> str_replace (str_replace t old new) old2 new2)"
    by (cases "files path")
       (auto simp: fix_analysis_block_missing fix_analysis_block_cases split: if_splits)
qed

lemma sample_no_pattern: "\<not> sublist old ''const x = 1;''"
  by code_simp

lemma sample_replace_old: "str_replace (old @ old2 @ old3) old new = new @ old2 @ old3"
  by code_simp

lemma sample_replace_old2: "str_replace (new @ old2 @ old3) old2 new2 = new @ new2 @ old3"
  by code_simp

lemma sample_found:
  "sublist old (old @ old2 @ old3)" "sublist old2 (new @ old2 @ old3)"
  "sublist old3 (new @ new2 @ old3)"
proof -
  show "sublist old (old @ old2 @ old3)" by simp
  show "sublist old2 (new @ old2 @ old3)" by simp
  have "sublist old3 ((new @ new2) @ old3)" by (rule sublist_append_leftI)
  then show "sublist old3 (new @ new2 @ old3)" by simp
qed

theorem patch_atomic_on_error_witness:
  "[path \<mapsto> ''const x = 1;''] path = Some ''const x = 1;'' \<and>
   \<not> sublist old ''const x = 1;'' \<and>
   fix_analysis_block [path \<mapsto> ''const x = 1;''] =
     (Inl (SystemExit ''pattern not found for currentSquad''), [path \<mapsto> ''const x = 1;'']) \<and>
   fix_analysis_block [path \<mapsto> old @ old2 @ old3] = (Inr (), [path \<mapsto> new @ new2 @ old3])"
proof -
  let ?F = "[path \<mapsto> ''const x = 1;'']" and ?G = "[path \<mapsto> old @ old2 @ old3]"
  have bad: "fix_analysis_block ?F =
     (Inl (SystemExit ''pattern not found for currentSquad''), ?F)"
    using sample_no_pattern by (simp add: fix_analysis_block_cases)
  have good: "fix_analysis_block ?G = (Inr (), [path \<mapsto> new @ new2 @ old3])"
    using sample_found by (simp add: fix_analysis_block_cases sample_replace_old sample_replace_old2)
  have h1: "?F path = Some ''const x = 1;'' \<and>
      (\<not> sublist old ''const x = 1;'' \<or> \<not> sublist old2 ''const x = 1;'' \<or>
       \<not> sublist old3 ''const x = 1;'')"
    using sample_no_pattern by simp
  have e1: "\<exists>msg. fix_analysis_block ?F = (Inl (SystemExit msg), ?F)"
    using patch_atomic_on_error [of ?F "''const x = 1;''"] h1 by blast
  have h2: "fst (fix_analysis_block ?G) = Inr ()"
    using good by simp
  have e2: "\<exists>t. ?G path = Some t \<and> sublist old t \<and>
           sublist old2 (str_replace t old new) \<and>
           sublist old3 (str_replace (str_replace t old new) old2 new2) \<and>
           snd (fix_analysis_block ?G) =
             ?G(path \<mapsto> str_replace (str_replace t old new) old2 new2)"
    using patch_atomic_on_error [of ?G] h2 by blast
  show ?thesis
    using e1 e2 bad good sample_no_pattern by (intro conjI) simp_all
qed

section \<open>Properties of the recommendation generator\<close>

lemma club_count_remove1: "club_count (remove1 out fs) c \<le> club_count fs c"
  unfolding club_count_def
proof (induction fs)
  case Nil
  show ?case by simp
next
  case (Cons r fs)
  then show ?case by auto
qed

lemma club_count_after_bound:
  "club_count_after fs out inc (team inc) \<le> 3 \<Longrightarrow>
   club_count_after fs out inc c \<le> max 3 (club_count fs c)"
  using club_count_remove1 [of out fs c]
  by (cases "team inc = c") (auto simp: club_count_after_def)

lemma legalD:
  assumes "legal fs mpp out c"
  shows "price c \<le> mpp" and "\<exists>q. player out = Some q \<and> element_type c = element_type q"
    and "\<not> in_squad fs c" and "club_count_after fs out c (team c) \<le> 3"
  using assms by (auto simp: legal_def split: option.splits)

lemma upgrades_for_entries:
  assumes "u \<in> set (upgrades_for score pol fs catalog mpp out)"
  shows "outgoing u = out \<and> incoming u \<in> set catalog \<and> legal fs mpp out (incoming u) \<and>
         improves score out (incoming u) \<and>
         priceDelta u = price (incoming u) - sellPrice out"
proof -
  let ?cands = "filter (\<lambda>c. legal fs mpp out c \<and> improves score out c) catalog"
  from assms obtain c where c: "c \<in> set (take (top_n pol) (sort_key score ?cands))"
    and u: "u = \<lparr>outgoing = out, incoming = c, priceDelta = price c - sellPrice out,
                rationale = explain pol out c\<rparr>"
    by (auto simp: upgrades_for_def)
  from c have "c \<in> set (sort_key score ?cands)"
    by (rule in_set_takeD)
  then have "c \<in> set catalog \<and> legal fs mpp out c \<and> improves score out c"
    by simp
  then show ?thesis
    using u by simp
qed

lemma upgrades_for_empty:
  "upgrades_for score pol fs catalog mpp out = [] \<longleftrightarrow>
     top_n pol = 0 \<or> (\<forall>c \<in> set catalog. \<not> (legal fs mpp out c \<and> improves score out c))"
proof -
  let ?cands = "filter (\<lambda>c. legal fs mpp out c \<and> improves score out c) catalog"
  have "upgrades_for score pol fs catalog mpp out = [] \<longleftrightarrow>
        top_n pol = 0 \<or> sort_key score ?cands = []"
    by (simp add: upgrades_for_def)
  also have "sort_key score ?cands = [] \<longleftrightarrow> ?cands = []"
    by (metis length_sort length_0_conv)
  also have "?cands = [] \<longleftrightarrow> (\<forall>c \<in> set catalog. \<not> (legal fs mpp out c \<and> improves score out c))"
    by (simp add: filter_empty_conv)
  finally show ?thesis .
qed

lemma concat_upgrades_empty:
  "concat (map (upgrades_for score pol fs catalog mpp) outs) = [] \<longleftrightarrow>
     top_n pol = 0 \<or>
     (\<forall>out \<in> set outs. \<forall>c \<in> set catalog. \<not> (legal fs mpp out c \<and> improves score out c))"
  by (auto simp: upgrades_for_empty)

lemma analysis_bench:
  "benchUpgrades (analysis (generate pol) assess A b tv ft nd fs) =
     concat (map (upgrades_for (bench_score pol) pol fs A
                    (maxPlayerPrice (analysis (generate pol) assess A b tv ft nd fs)))
                 (benchPlayers fs))"
  by (cases fs) (simp_all add: analysis_def Let_def generate_def benchPlayers_def)

lemma analysis_starters:
  "starterTargets (analysis (generate pol) assess A b tv ft nd fs) =
     concat (map (upgrades_for (starter_score pol) pol fs A
                    (maxPlayerPrice (analysis (generate pol) assess A b tv ft nd fs)))
                 (starterPlayers fs))"
  by (cases fs) (simp_all add: analysis_def Let_def generate_def starterPlayers_def)

lemma analysis_entry:
  assumes "u \<in> set (benchUpgrades (analysis (generate pol) assess A b tv ft nd fs)) \<union>
               set (starterTargets (analysis (generate pol) assess A b tv ft nd fs))"
  shows "legal fs (maxPlayerPrice (analysis (generate pol) assess A b tv ft nd fs))
           (outgoing u) (incoming u)"
  using assms unfolding analysis_bench analysis_starters
  by (auto dest: upgrades_for_entries)

text \<open>
  C5. Every entry of \<^verbatim>\<open>benchUpgrades\<close> and \<^verbatim>\<open>starterTargets\<close> is legal: the incoming
  player costs at most \<^verbatim>\<open>maxPlayerPrice\<close>, has the position of the outgoing
  player, and accepting the swap pushes no club above three (a club counts at
  most three afterwards, or no more than it did before). Each list is there and
  empty exactly when no legal improvement exists for its picks (or the policy
  asks for no candidate at all): a candidate that is legal but scores no better
  than the outgoing player is not emitted.
\<close>

theorem recommendations_legal:
  "(\<forall>u \<in> set (benchUpgrades (fst (analyseTeam (generate pol) assess allPlayers picks b ft nd console))) \<union>
          set (starterTargets (fst (analyseTeam (generate pol) assess allPlayers picks b ft nd console))).
      price (incoming u) \<le>
        maxPlayerPrice (fst (analyseTeam (generate pol) assess allPlayers picks b ft nd console)) \<and>
      (\<exists>q. player (outgoing u) = Some q \<and> element_type (incoming u) = element_type q) \<and>
      (\<forall>c. club_count_after (filteredSquad (fst (currentSquad allPlayers picks console)))
             (outgoing u) (incoming u) c
           \<le> max 3 (club_count (filteredSquad (fst (currentSquad allPlayers picks console))) c))) \<and>
   (benchUpgrades (fst (analyseTeam (generate pol) assess allPlayers picks b ft nd console)) = [] \<longleftrightarrow>
      top_n pol = 0 \<or>
      (\<forall>out \<in> set (benchPlayers (filteredSquad (fst (currentSquad allPlayers picks console)))).
         \<forall>c \<in> set allPlayers.
           \<not> (legal (filteredSquad (fst (currentSquad allPlayers picks console)))
                 (maxPlayerPrice (fst (analyseTeam (generate pol) assess allPlayers picks b ft nd console)))
                 out c \<and>
              improves (bench_score pol) out c))) \<and>
   (starterTargets (fst (analyseTeam (generate pol) assess allPlayers picks b ft nd console)) = [] \<longleftrightarrow>
      top_n pol = 0 \<or>
      (\<forall>out \<in> set (starterPlayers (filteredSquad (fst (currentSquad allPlayers picks console)))).
         \<forall>c \<in> set allPlayers.
           \<not> (legal (filteredSquad (fst (currentSquad allPlayers picks console)))
                 (maxPlayerPrice (fst (analyseTeam (generate pol) assess allPlayers picks b ft nd console)))
                 out c \<and>
              improves (starter_score pol) out c)))"
proof (intro conjI ballI)
  let ?fs = "filteredSquad (fst (currentSquad allPlayers picks console))"
  let ?res = "fst (analyseTeam (generate pol) assess allPlayers picks b ft nd console)"
  fix u
  assume "u \<in> set (benchUpgrades ?res) \<union> set (starterTargets ?res)"
  then have l: "legal ?fs (maxPlayerPrice ?res) (outgoing u) (incoming u)"
    unfolding fst_analyseTeam by (rule analysis_entry)
  show "price (incoming u) \<le> maxPlayerPrice ?res"
    using legalD(1) [OF l] .
  show "\<exists>q. player (outgoing u) = Some q \<and> element_type (incoming u) = element_type q"
    using legalD(2) [OF l] .
  show "\<forall>c. club_count_after ?fs (outgoing u) (incoming u) c \<le> max 3 (club_count ?fs c)"
    using club_count_after_bound [OF legalD(4) [OF l]] by blast
next
  show "benchUpgrades (fst (analyseTeam (generate pol) assess allPlayers picks b ft nd console)) = [] \<longleftrightarrow>
      top_n pol = 0 \<or>
      (\<forall>out \<in> set (benchPlayers (filteredSquad (fst (currentSquad allPlayers picks console)))).
         \<forall>c \<in> set allPlayers.
           \<not> (legal (filteredSquad (fst (currentSquad allPlayers picks console)))
                 (maxPlayerPrice (fst (analyseTeam (generate pol) assess allPlayers picks b ft nd console)))
                 out c \<and>
              improves (bench_score pol) out c))"
    unfolding fst_analyseTeam analysis_bench by (rule concat_upgrades_empty)
next
  show "starterTargets (fst (analyseTeam (generate pol) assess allPlayers picks b ft nd console)) = [] \<longleftrightarrow>
      top_n pol = 0 \<or>
      (\<forall>out \<in> set (starterPlayers (filteredSquad (fst (currentSquad allPlayers picks console)))).
         \<forall>c \<in> set allPlayers.
           \<not> (legal (filteredSquad (fst (currentSquad allPlayers picks console)))
                 (maxPlayerPrice (fst (analyseTeam (generate pol) assess allPlayers picks b ft nd console)))
                 out c \<and>
              improves (starter_score pol) out c))"
    unfolding fst_analyseTeam analysis_starters by (rule concat_upgrades_empty)
qed

text \<open>Every entry is an improvement under the score of its list.\<close>

lemma recommendations_improve:
  "u \<in> set (benchUpgrades (analysis (generate pol) assess A b tv ft nd fs)) \<Longrightarrow>
     improves (bench_score pol) (outgoing u) (incoming u)"
  "u \<in> set (starterTargets (analysis (generate pol) assess A b tv ft nd fs)) \<Longrightarrow>
     improves (starter_score pol) (outgoing u) (incoming u)"
  unfolding analysis_bench analysis_starters by (auto dest: upgrades_for_entries)

lemma small_squad: "fst (currentSquad small_catalog small_picks []) = [r1, r12]"
  unfolding fst_currentSquad fst_resolve_pick
  by (simp add: small_catalog_def small_picks_def sell_price_def opt_now_cost_def r1_def r12_def)

lemma small_fs: "filteredSquad (fst (currentSquad small_catalog small_picks [])) = [r1, r12]"
  unfolding small_squad by (simp add: filteredSquad_def r1_def r12_def)

lemma small_res:
  "fst (analyseTeam (generate cheapest_first) no_risk small_catalog small_picks 1 1
         ''2025-10-03T17:30:00Z'' []) =
   \<lparr>bank = 1, teamValue = 9, freeTransfers = 1, nextDeadline = ''2025-10-03T17:30:00Z'',
    maxPlayerPrice = 6, benchUpgrades = [up12], starterTargets = [up1],
    riskAssessment = ''low''\<rparr>"
  unfolding fst_analyseTeam small_fs small_squad
  by (simp add: analysis_def Let_def Math_max_def teamValue_of_def generate_def benchPlayers_def
      starterPlayers_def upgrades_for_def legal_def improves_def in_squad_def
      club_count_after_def club_count_def price_def cheapest_first_def no_risk_def
      small_catalog_def r1_def r12_def up1_def up12_def p20_def filteredSquad_def)

lemma dear_squad: "fst (currentSquad dear_catalog small_picks []) = [r1, r12]"
  unfolding fst_currentSquad fst_resolve_pick
  by (simp add: dear_catalog_def small_picks_def sell_price_def opt_now_cost_def r1_def r12_def)

lemma dear_fs: "filteredSquad (fst (currentSquad dear_catalog small_picks [])) = [r1, r12]"
  unfolding dear_squad by (simp add: filteredSquad_def r1_def r12_def)

lemma dear_legal: "p24 \<in> set dear_catalog" "legal [r1, r12] 6 r12 p24" "legal [r1, r12] 6 r1 p24"
  by (simp_all add: dear_catalog_def legal_def in_squad_def club_count_after_def club_count_def
      price_def r1_def r12_def p24_def)

lemma dear_no_improvement:
  "\<forall>out \<in> set [r1, r12]. \<forall>c \<in> set dear_catalog. \<not> (legal [r1, r12] mpp out c \<and> improves price out c)"
  by (simp add: dear_catalog_def legal_def improves_def in_squad_def price_def r1_def r12_def)

lemma dear_mpp:
  "maxPlayerPrice (fst (analyseTeam (generate cheapest_first) no_risk dear_catalog small_picks 1 1
         ''2025-10-03T17:30:00Z'' [])) = 6"
  unfolding fst_analyseTeam dear_fs
  by (simp add: analysis_def Let_def Math_max_def r1_def r12_def)

theorem recommendations_legal_witness:
  "up12 \<in> set (benchUpgrades (fst (analyseTeam (generate cheapest_first) no_risk small_catalog
                 small_picks 1 1 ''2025-10-03T17:30:00Z'' []))) \<and>
   price (incoming up12) = 7 / 2 \<and>
   maxPlayerPrice (fst (analyseTeam (generate cheapest_first) no_risk small_catalog
                 small_picks 1 1 ''2025-10-03T17:30:00Z'' [])) = 6 \<and>
   player (outgoing up12) = player r12 \<and> element_type (incoming up12) = Goalkeeper \<and>
   club_count_after [r1, r12] (outgoing up12) (incoming up12) 3 \<le> 3 \<and>
   benchUpgrades (fst (analyseTeam (generate cheapest_first) no_risk small_catalog
                 small_picks 1 1 ''2025-10-03T17:30:00Z'' [])) \<noteq> [] \<and>
   maxPlayerPrice (fst (analyseTeam (generate cheapest_first) no_risk dear_catalog
                 small_picks 1 1 ''2025-10-03T17:30:00Z'' [])) = 6 \<and>
   legal [r1, r12] 6 r12 p24 \<and> p24 \<in> set dear_catalog \<and>
   benchUpgrades (fst (analyseTeam (generate cheapest_first) no_risk dear_catalog
                 small_picks 1 1 ''2025-10-03T17:30:00Z'' [])) = [] \<and>
   starterTargets (fst (analyseTeam (generate cheapest_first) no_risk dear_catalog
                 small_picks 1 1 ''2025-10-03T17:30:00Z'' [])) = []"
proof -
  let ?R = "fst (analyseTeam (generate cheapest_first) no_risk small_catalog
                 small_picks 1 1 ''2025-10-03T17:30:00Z'' [])"
  let ?R' = "fst (analyseTeam (generate cheapest_first) no_risk dear_catalog
                 small_picks 1 1 ''2025-10-03T17:30:00Z'' [])"
  note c5 = recommendations_legal [of cheapest_first no_risk small_catalog small_picks 1 1
      "''2025-10-03T17:30:00Z''" "[]"]
  note c5' = recommendations_legal [of cheapest_first no_risk dear_catalog small_picks 1 1
      "''2025-10-03T17:30:00Z''" "[]"]
  have mem: "up12 \<in> set (benchUpgrades ?R) \<union> set (starterTargets ?R)"
    unfolding small_res by simp
  have leg: "price (incoming up12) \<le> maxPlayerPrice ?R \<and>
      (\<exists>q. player (outgoing up12) = Some q \<and> element_type (incoming up12) = element_type q) \<and>
      (\<forall>c. club_count_after (filteredSquad (fst (currentSquad small_catalog small_picks [])))
             (outgoing up12) (incoming up12) c
           \<le> max 3 (club_count (filteredSquad (fst (currentSquad small_catalog small_picks []))) c))"
    using c5 mem by blast
  have cc: "club_count_after [r1, r12] (outgoing up12) (incoming up12) 3 \<le> 3"
    using leg unfolding small_fs by (simp add: club_count_def r1_def r12_def)
  have bench: "benchPlayers [r1, r12] = [r12]" and start: "starterPlayers [r1, r12] = [r1]"
    by (simp_all add: benchPlayers_def starterPlayers_def r1_def r12_def)
  have sc: "bench_score cheapest_first = price" "starter_score cheapest_first = price"
    by (simp_all add: cheapest_first_def)
  have none: "benchUpgrades ?R' = [] \<and> starterTargets ?R' = []"
    using c5' dear_no_improvement unfolding dear_fs bench start sc by simp
  show ?thesis
    using leg cc none dear_legal dear_mpp unfolding small_res
    by (simp add: up12_def price_def r12_def p20_def)
qed

section \<open>Properties of the currency check\<close>

lemma garbled_pound_latin1: "garbled_pound = mis_decode latin1 163"
  by (simp add: garbled_pound_def mis_decode_def utf8_def decode_byte_def latin1_def)

lemma garbled_contains_pound: "sublist garbled_pound message \<Longrightarrow> sublist pound message"
proof -
  assume "sublist garbled_pound message"
  moreover have "sublist pound garbled_pound"
    by (simp add: pound_def garbled_pound_def sublist_Cons_right)
  ultimately show ?thesis
    by (meson sublist_order.order_trans)
qed

text \<open>
  The empty literal is in every string, so the test script reports an answer
  exactly when it has a pound sign at all, garbled or not.
\<close>

lemma check_currency_symbols_any_pound:
  "check_currency_symbols message (test_passed, issues) =
     (if sublist pound message then (False, issues @ [''Found garbled currency symbols''])
      else (test_passed, issues))"
  by (simp add: check_currency_symbols_def)

lemma check_currency_symbols_garbled:
  "sublist garbled_pound message \<Longrightarrow>
   check_currency_symbols message (test_passed, issues) =
     (False, issues @ [''Found garbled currency symbols''])"
  by (simp add: check_currency_symbols_any_pound garbled_contains_pound)


lemma malformed_currencyD:
  assumes "malformed_currency cps curs answerText"
  shows "\<exists>cp \<in> set cps. \<exists>cur \<in> set curs. 128 \<le> cur \<and> sublist (mis_decode cp cur) answerText"
  using assms by (auto simp: malformed_currency_def garbled_sequences_def list_ex_iff)

text \<open>The validator rejects nothing else: with no violation found the answer is accepted.\<close>

lemma validate_accepts:
  "accepted (validate g answerText analysisResult) \<longleftrightarrow>
     \<not> unknown_player g answerText analysisResult \<and> \<not> stale_gameweek g answerText \<and>
     \<not> malformed_currency (known_codepages g) (currency_symbols g) answerText \<and>
     \<not> price_unformatted g answerText"
  by (simp add: validate_def Let_def)





text \<open>The price with a well-formed pound sign has none of the known sequences and is accepted.\<close>

lemma clean_answer_accepted: "accepted (validate sample_grounding clean_answer minimal_result)"
proof -
  have "garbled_sequences [latin1, cp1252, mac_roman, cp437] [163, 8364] =
      [[194, 163], [226, 130, 172], [194, 163], [226, 8218, 172], [172, 163], [8218, 199, 168],
       [9516, 250], [915, 233, 188]]"
    by (simp add: garbled_sequences_def mis_decode_def utf8_def decode_byte_def latin1_def
        cp1252_def mac_roman_def cp437_def)
  then have "\<not> malformed_currency [latin1, cp1252, mac_roman, cp437] [163, 8364] clean_answer"
    by (simp add: malformed_currency_def clean_answer_def sublist_Cons_right)
  then show ?thesis
    by (simp add: validate_accepts sample_grounding_def)
qed

end
